theory Spec2Isabelle
  imports Complex_Main
begin

section \<open>Batphone acoustic fingerprinter: the audio callback and its control surface\<close>

text \<open>
  A shallow embedding of \<^verbatim>\<open>Fingerprinter.cpp\<close>: the compile-time constants, the
  render callback (frame assembly, windowed spectral analysis, temporal accumulation,
  publication of the fingerprint) and the public members \<^verbatim>\<open>getFingerprint\<close>,
  \<^verbatim>\<open>startRecording\<close> and \<^verbatim>\<open>stopRecording\<close>.
\<close>

subsection \<open>Binary floating point, as far as the constants need it\<close>

text \<open>
  The constants of the program are computed in C++ \<^verbatim>\<open>float\<close> and \<^verbatim>\<open>double\<close>
  arithmetic and then converted to integers. Their values are modelled exactly: a
  floating-point number is the rational it denotes, and every operation is the exact
  operation followed by rounding to the nearest number with a \<open>p\<close>-bit significand, ties
  to even (\<open>p = 24\<close> for \<^verbatim>\<open>float\<close>, \<open>p = 53\<close> for \<^verbatim>\<open>double\<close>). Overflow
  and subnormal numbers are not modelled; every value below is far from both.
\<close>

function bitlen :: "int \<Rightarrow> int" where
  \<comment> \<open>the number of binary digits of a positive integer\<close>
  "bitlen a = (if a \<le> 0 then 0 else 1 + bitlen (a div 2))"
  by pat_completeness auto
termination
  by (relation "measure nat") auto

declare bitlen.simps [simp del]

definition ilog2 :: "rat \<Rightarrow> int" where
  \<comment> \<open>\<open>\<lfloor>log\<^sub>2 x\<rfloor>\<close> for positive \<open>x\<close>, from the bit lengths of numerator and denominator\<close>
  "ilog2 x = (let (a, b) = quotient_of x; d = bitlen a - bitlen b
              in if 2 powi d \<le> x then d else d - 1)"

definition round_nearest_even :: "rat \<Rightarrow> int" where
  "round_nearest_even q =
     (let f = \<lfloor>q\<rfloor>; r = q - of_int f
      in if r < 1 / 2 then f else if 1 / 2 < r then f + 1 else if even f then f else f + 1)"

definition round_to :: "nat \<Rightarrow> rat \<Rightarrow> rat" where
  "round_to p x =
     (if x = 0 then 0
      else let u = 2 powi (ilog2 \<bar>x\<bar> - (int p - 1))
           in sgn x * of_int (round_nearest_even (\<bar>x\<bar> / u)) * u)"

definition f32 :: "rat \<Rightarrow> rat" where
  "f32 = round_to 24"

definition f64 :: "rat \<Rightarrow> rat" where
  "f64 = round_to 53"

subsection \<open>Constants\<close>

definition sampleRate :: nat where
  "sampleRate = 44100"

definition specRes :: nat where
  "specRes = 1024"

definition windowOffset :: rat where
  \<comment> \<open>\<^verbatim>\<open>const float windowOffset = 0.01\<close>: the double literal, converted to float\<close>
  "windowOffset = f32 (f64 (1 / 100))"

definition accumulationNum :: nat where
  "accumulationNum = 10"

definition historyTime :: nat where
  "historyTime = 10"

definition historyCount :: nat where
  \<comment> \<open>\<^verbatim>\<open>historyTime / accumulationNum / windowOffset\<close>: an unsigned division, then a
      float division, then the conversion to \<^verbatim>\<open>unsigned int\<close>, which truncates\<close>
  "historyCount =
     nat \<lfloor>f32 (f32 (of_nat (historyTime div accumulationNum)) / windowOffset)\<rfloor>"

definition freqCutoff :: rat where
  "freqCutoff = f32 (f64 7000)"

definition fpLength :: nat where
  \<comment> \<open>\<^verbatim>\<open>specRes * freqCutoff / 22050.0\<close>: a float product, a double division, truncated\<close>
  "fpLength = nat \<lfloor>f64 (f32 (f32 (of_nat specRes) * freqCutoff) / f64 22050)\<rfloor>"

definition stepSize :: int where
  \<comment> \<open>\<^verbatim>\<open>int stepSize = floor(windowOffset * sampleRate)\<close>, the product taken in float\<close>
  "stepSize = \<lfloor>f32 (windowOffset * f32 (of_nat sampleRate))\<rfloor>"

text \<open>
  The formulas of the specification, over exact rationals: \<open>specRes \<times> freqCutoff /
  (sampleRate / 2)\<close> and \<open>historyTime / (accumulationNum \<times> windowOffset)\<close>, with the
  cutoff 7000 and the window offset 0.01 as written.
\<close>

definition spec_fpLength :: rat where
  "spec_fpLength = of_nat specRes * 7000 / (of_nat sampleRate / 2)"

definition spec_historyCount :: rat where
  "spec_historyCount = of_nat historyTime / (of_nat accumulationNum * (1 / 100))"

definition fbLen_setup :: nat where
  \<comment> \<open>\<^verbatim>\<open>callbackData->fbLen = 0.5*Fingerprinter::sampleRate\<close>, a double product, truncated\<close>
  "fbLen_setup = nat \<lfloor>f64 (f64 (1 / 2) * f64 (of_nat sampleRate))\<rfloor>"

subsection \<open>Sample values and the vector routines\<close>

text \<open>
  The contents of the signal buffers are single-precision values. They are modelled as a
  real number or one of the three special values of IEEE arithmetic; rounding is not
  modelled here, since no property below depends on the low bits of a sample, and the
  sign of zero is ignored. What matters is how the special values arise and spread: the
  logarithm of zero is \<open>-\<infinity>\<close>, the logarithm of a negative number is NaN, every
  operation on a NaN is a NaN, and every comparison with a NaN is false.
\<close>

datatype float = Num (the_Num: real) | PInf | NInf | NaN

fun fadd :: "float \<Rightarrow> float \<Rightarrow> float" where
  "fadd NaN y = NaN"
| "fadd x NaN = NaN"
| "fadd PInf NInf = NaN"
| "fadd NInf PInf = NaN"
| "fadd PInf y = PInf"
| "fadd x PInf = PInf"
| "fadd NInf y = NInf"
| "fadd x NInf = NInf"
| "fadd (Num a) (Num b) = Num (a + b)"

fun fmul :: "float \<Rightarrow> float \<Rightarrow> float" where
  "fmul NaN y = NaN"
| "fmul x NaN = NaN"
| "fmul (Num a) (Num b) = Num (a * b)"
| "fmul (Num a) PInf = (if a = 0 then NaN else if 0 < a then PInf else NInf)"
| "fmul (Num a) NInf = (if a = 0 then NaN else if 0 < a then NInf else PInf)"
| "fmul PInf (Num b) = (if b = 0 then NaN else if 0 < b then PInf else NInf)"
| "fmul NInf (Num b) = (if b = 0 then NaN else if 0 < b then NInf else PInf)"
| "fmul PInf PInf = PInf"
| "fmul NInf NInf = PInf"
| "fmul PInf NInf = NInf"
| "fmul NInf PInf = NInf"

fun fdiv :: "float \<Rightarrow> float \<Rightarrow> float" where
  "fdiv NaN y = NaN"
| "fdiv x NaN = NaN"
| "fdiv (Num a) (Num b) =
     (if b = 0 then (if a = 0 then NaN else if 0 < a then PInf else NInf) else Num (a / b))"
| "fdiv (Num a) y = Num 0"
| "fdiv PInf (Num b) = (if 0 \<le> b then PInf else NInf)"
| "fdiv NInf (Num b) = (if 0 \<le> b then NInf else PInf)"
| "fdiv x y = NaN"

fun flog10 :: "float \<Rightarrow> float" where
  "flog10 (Num a) = (if a < 0 then NaN else if a = 0 then NInf else Num (log 10 a))"
| "flog10 PInf = PInf"
| "flog10 NInf = NaN"
| "flog10 NaN = NaN"

fun fle :: "float \<Rightarrow> float \<Rightarrow> bool" where
  "fle NaN y = False"
| "fle x NaN = False"
| "fle NInf y = True"
| "fle x PInf = True"
| "fle (Num a) (Num b) = (a \<le> b)"
| "fle x y = False"

text \<open>
  The routines of the vDSP library that the callback uses, all with stride 1, after their
  documentation. Each returns the elements it computes; the caller stores them into the
  destination array with \<open>store\<close>. \<open>vDSP_vdbcon\<close> converts to decibels relative to the
  reference \<open>b\<close>: \<open>\<alpha> \<times> log\<^sub>1\<^sub>0 (a / b)\<close>, where the flag selects \<open>\<alpha> = 20\<close> (flag 1,
  amplitude) or \<open>\<alpha> = 10\<close> (flag 0, power).
\<close>

definition store :: "'a list \<Rightarrow> nat \<Rightarrow> 'a list \<Rightarrow> 'a list" where
  \<comment> \<open>the array \<open>buf\<close> after \<open>xs\<close> has been written at offset \<open>i\<close>\<close>
  "store buf i xs = take i buf @ xs @ drop (i + length xs) buf"

definition vDSP_vflt32 :: "int list \<Rightarrow> nat \<Rightarrow> float list" where
  "vDSP_vflt32 A n = map (\<lambda>i. Num (of_int i)) (take n A)"

definition vDSP_vfilli :: "int \<Rightarrow> nat \<Rightarrow> int list" where
  "vDSP_vfilli a n = replicate n a"

definition vDSP_vfill :: "float \<Rightarrow> nat \<Rightarrow> float list" where
  "vDSP_vfill a n = replicate n a"

definition vDSP_vmul :: "float list \<Rightarrow> float list \<Rightarrow> nat \<Rightarrow> float list" where
  "vDSP_vmul A B n = map2 fmul (take n A) (take n B)"

definition vDSP_vadd :: "float list \<Rightarrow> float list \<Rightarrow> nat \<Rightarrow> float list" where
  "vDSP_vadd A B n = map2 fadd (take n A) (take n B)"

definition vDSP_vdbcon :: "float list \<Rightarrow> float \<Rightarrow> nat \<Rightarrow> nat \<Rightarrow> float list" where
  "vDSP_vdbcon A b n F =
     map (\<lambda>a. fmul (Num (if F = 1 then 20 else 10)) (flog10 (fdiv a b))) (take n A)"

definition vDSP_hamm_window :: "nat \<Rightarrow> float list" where
  "vDSP_hamm_window n = map (\<lambda>k. Num (0.54 - 0.46 * cos (2 * pi * real k / real n))) [0..<n]"

subsection \<open>The state of the fingerprinter\<close>

text \<open>
  What the program does besides changing its memory is kept as a trace of events: what
  it prints, its calls on the fingerprint mutex (with the status the lock call returns),
  its calls on the spectrogram, and the copy that \<^verbatim>\<open>getFingerprint\<close> makes,
  together with whether the mutex is held at the moment of the copy.
\<close>

datatype event =
    Print string
  | MutexLock int
  | MutexUnlock
  | Update "float list"
  | GetSummary
  | Memcpy bool

text \<open>
  The object and its \<^verbatim>\<open>CallbackData\<close> are one record: \<^verbatim>\<open>cd->fingerprint\<close>,
  \<^verbatim>\<open>cd->lock\<close> and \<^verbatim>\<open>cd->spectrogram\<close> are pointers to the members of the object,
  so each is a single field here. \<open>lock\<close> tells whether the mutex is held. The scratch
  array \<^verbatim>\<open>A\<close> is the field \<open>bufA\<close> and the accumulator \<^verbatim>\<open>acc\<close> is the field
  \<open>accum\<close>; the cursors and the counter are C \<^verbatim>\<open>int\<close>s, \<open>fbLen\<close> an
  \<^verbatim>\<open>unsigned int\<close>.
\<close>

record 'sg Fingerprinter =
  unitIsRunning :: bool
  fingerprint :: "float list"
  lock :: bool
  spectrogram :: 'sg
  bufA :: "float list"
  hamm :: "float list"
  accum :: "float list"
  accCount :: int
  frameBuffer :: "float list"
  fbIndex :: int
  startIndex :: int
  fbLen :: nat
  trace :: "event list"

text \<open>
  What the callback takes from outside the file: the transform (\<^verbatim>\<open>vDSP_ctoz\<close>,
  \<^verbatim>\<open>vDSP_fft_zip\<close> and \<^verbatim>\<open>vDSP_zaspec\<close> together, from the \<open>2 \<times> specRes\<close> floats
  of \<^verbatim>\<open>A\<close> to \<open>specRes\<close> powers), the \<^verbatim>\<open>Spectrogram\<close> class, of which the
  sources hold the header only, and the status that \<^verbatim>\<open>pthread_mutex_lock\<close> returns.
  \<open>sg_getSummary\<close> takes the spectrogram and the buffer to fill and returns the
  buffer.
\<close>

record 'sg environment =
  powerSpectrum :: "float list \<Rightarrow> float list"
  sg_new :: "nat \<Rightarrow> nat \<Rightarrow> 'sg"
  sg_update :: "'sg \<Rightarrow> float list \<Rightarrow> 'sg"
  sg_getSummary :: "'sg \<Rightarrow> float list \<Rightarrow> float list"
  lockStatus :: int

datatype fault = OutOfBounds

datatype flow = Continue | Return int

definition u32 :: "int \<Rightarrow> int" where
  \<comment> \<open>conversion to \<^verbatim>\<open>unsigned int\<close>\<close>
  "u32 x = x mod 2 ^ 32"

definition s32 :: "int \<Rightarrow> int" where
  \<comment> \<open>conversion to \<^verbatim>\<open>int\<close>\<close>
  "s32 x = (x + 2 ^ 31) mod 2 ^ 32 - 2 ^ 31"

definition emit :: "event \<Rightarrow> 'sg Fingerprinter \<Rightarrow> 'sg Fingerprinter" where
  "emit e s = s\<lparr>trace := trace s @ [e]\<rparr>"

definition pthread_mutex_lock :: "int \<Rightarrow> 'sg Fingerprinter \<Rightarrow> 'sg Fingerprinter" where
  \<comment> \<open>the call acquires the mutex exactly when it returns 0\<close>
  "pthread_mutex_lock rc s = emit (MutexLock rc) (if rc = 0 then s\<lparr>lock := True\<rparr> else s)"

definition pthread_mutex_unlock :: "'sg Fingerprinter \<Rightarrow> 'sg Fingerprinter" where
  "pthread_mutex_unlock s = emit MutexUnlock (s\<lparr>lock := False\<rparr>)"

definition lock_fingerprint :: "int \<Rightarrow> 'sg Fingerprinter \<Rightarrow> 'sg Fingerprinter" where
  \<comment> \<open>\<^verbatim>\<open>if( pthread_mutex_lock( lock ) ) printf( "lock failed!\n" )\<close>\<close>
  "lock_fingerprint rc s =
     (let s1 = pthread_mutex_lock rc s in if rc \<noteq> 0 then emit (Print ''lock failed!'') s1 else s1)"

subsection \<open>The render callback\<close>

text \<open>
  Lines 104 to 121 of the callback: make room, convert and copy the new samples, advance
  the write cursor. \<open>n\<close> is \<^verbatim>\<open>inNumberFrames\<close> and \<open>data\<close> the samples that
  \<^verbatim>\<open>AudioUnitRender\<close> delivered. The test \<^verbatim>\<open>cd->fbIndex >= cd->fbLen - inNumberFrames\<close>
  compares unsigned values. The call
  \<^verbatim>\<open>memcpy(cd->frameBuffer + cd->fbLen/2, cd->frameBuffer, sizeof(float)*cd->fbLen/2)\<close>
  has its destination first: it writes the floats at \<open>0 \<dots> fbLen/2 - 1\<close> to the
  positions from \<open>fbLen/2\<close> on (\<open>4 \<times> fbLen / 2\<close> bytes are \<open>fbLen / 2\<close> floats, \<open>fbLen\<close>
  being even). A write outside the frame buffer is a fault.
\<close>

definition shift_buffer :: "'sg Fingerprinter \<Rightarrow> 'sg Fingerprinter" where
  "shift_buffer s =
     (let half = fbLen s div 2
      in s\<lparr>frameBuffer := store (frameBuffer s) half (take half (frameBuffer s)),
            fbIndex := s32 (u32 (fbIndex s) - int half),
            startIndex := s32 (u32 (startIndex s) - int half)\<rparr>)"

definition frame_assemble ::
  "'sg Fingerprinter \<Rightarrow> nat \<Rightarrow> int list \<Rightarrow> fault + 'sg Fingerprinter" where
  "frame_assemble s n data =
     (let s1 = (if u32 (int (fbLen s) - int n) \<le> u32 (fbIndex s) then shift_buffer s else s)
      in if fbIndex s1 < 0 \<or> int (length (frameBuffer s1)) < fbIndex s1 + int n
         then Inl OutOfBounds
         else Inr (s1\<lparr>frameBuffer :=
                         store (frameBuffer s1) (nat (fbIndex s1)) (vDSP_vflt32 data n),
                       fbIndex := s32 (u32 (fbIndex s1) + int n)\<rparr>))"

text \<open>
  Lines 153 to 176: the accumulated spectrum is due. The sum is converted in place with
  the reference \<^verbatim>\<open>1.0f * accumulationNum\<close> and the flag 1; if its first element
  is neither \<open>\<ge> 0\<close> nor \<open>\<le> 0\<close> the callback prints, unlocks and returns 0; otherwise the
  spectrum goes to the spectrogram, the summary is written into the fingerprint, the
  mutex is unlocked and the accumulator and its counter are cleared.
\<close>

definition convert_to_dB :: "'sg Fingerprinter \<Rightarrow> 'sg Fingerprinter" where
  "convert_to_dB s =
     s\<lparr>accum := store (accum s) 0
                  (vDSP_vdbcon (accum s) (Num (1 * of_nat accumulationNum)) fpLength 1)\<rparr>"

definition is_NaN :: "float \<Rightarrow> bool" where
  \<comment> \<open>\<^verbatim>\<open>!(x >= 0 || x <= 0)\<close>\<close>
  "is_NaN x = (\<not> (fle (Num 0) x \<or> fle x (Num 0)))"

definition accumulated ::
  "'sg environment \<Rightarrow> 'sg Fingerprinter \<Rightarrow> flow \<times> 'sg Fingerprinter" where
  "accumulated env s =
     (let s1 = convert_to_dB (lock_fingerprint (lockStatus env) s)
      in if is_NaN (accum s1 ! 0)
         then (Return 0, pthread_mutex_unlock (emit (Print ''spectrum is NaN'') s1))
         else
           let sg = sg_update env (spectrogram s1) (accum s1);
               s2 = emit (Update (accum s1)) (s1\<lparr>spectrogram := sg\<rparr>);
               fp = sg_getSummary env (spectrogram s2) (fingerprint s2);
               s3 = pthread_mutex_unlock (emit GetSummary (s2\<lparr>fingerprint := fp\<rparr>))
           in (Continue,
               s3\<lparr>accum := store (accum s3) 0 (vDSP_vfill (Num 0) fpLength), accCount := 0\<rparr>))"

text \<open>
  Lines 133 to 177, the body of the loop: the window at \<open>startIndex\<close> is copied into the
  first \<open>specRes\<close> floats of \<^verbatim>\<open>A\<close>, multiplied by the Hamming window, transformed, and
  the first \<open>fpLength\<close> powers are added to the accumulator; the counter is incremented
  and compared, as an unsigned value, with \<open>accumulationNum\<close>. A read outside the frame
  buffer is a fault.
\<close>

definition analyze_window :: "'sg environment \<Rightarrow> 'sg Fingerprinter \<Rightarrow> 'sg Fingerprinter" where
  "analyze_window env s =
     (let A1 = store (bufA s) 0 (take specRes (drop (nat (startIndex s)) (frameBuffer s)));
          A2 = store A1 0 (vDSP_vmul A1 (hamm s) specRes);
          A3 = store A2 0 (take specRes (powerSpectrum env A2))
      in s\<lparr>bufA := A3, accum := store (accum s) 0 (vDSP_vadd A3 (accum s) fpLength)\<rparr>)"

definition window_body ::
  "'sg environment \<Rightarrow> 'sg Fingerprinter \<Rightarrow> fault + flow \<times> 'sg Fingerprinter" where
  "window_body env s =
     (if startIndex s < 0 \<or> int (length (frameBuffer s)) < startIndex s + int specRes
      then Inl OutOfBounds
      else
        let s1 = analyze_window env s;
            s2 = s1\<lparr>accCount := s32 (accCount s1 + 1)\<rparr>
        in if int accumulationNum \<le> u32 (accCount s2) then Inr (accumulated env s2)
           else Inr (Continue, s2))"

text \<open>
  The loop \<^verbatim>\<open>for( ; cd->startIndex <= cd->fbIndex-windowFrames; cd->startIndex+=stepSize )\<close>.
  It returns the status with which the callback returns: that of a \<^verbatim>\<open>return\<close> in
  the body, or the 0 after the loop.
\<close>

function window_loop ::
  "'sg environment \<Rightarrow> 'sg Fingerprinter \<Rightarrow> fault + int \<times> 'sg Fingerprinter" where
  "window_loop env s =
     (if startIndex s \<le> fbIndex s - int specRes
      then (case window_body env s of
              Inl f \<Rightarrow> Inl f
            | Inr (Return r, s1) \<Rightarrow> Inr (r, s1)
            | Inr (Continue, s1) \<Rightarrow> window_loop env (s1\<lparr>startIndex := startIndex s1 + stepSize\<rparr>))
      else Inr (0, s))"
  by pat_completeness auto
termination
proof -
  have a: "f32 44100 = 44100"
    unfolding f32_def by code_simp
  have b: "f64 (1 / 100) = 5764607523034235 / 2 ^ 59"
    unfolding f64_def by code_simp
  have c: "f32 (5764607523034235 / 2 ^ 59) = 10737418 / 2 ^ 30"
    unfolding f32_def by code_simp
  have d: "f32 (10737418 / 2 ^ 30 * 44100) = 441"
    unfolding f32_def by code_simp
  have "stepSize = \<lfloor>f32 (f32 (f64 (1 / 100)) * f32 44100)\<rfloor>"
    by (simp add: stepSize_def windowOffset_def sampleRate_def)
  also have "\<dots> = \<lfloor>441 :: rat\<rfloor>"
    by (simp only: a b c d)
  finally have step: "0 < stepSize"
    by simp
  have cursors: "startIndex s1 = startIndex s \<and> fbIndex s1 = fbIndex s"
    if "window_body env s = Inr (Continue, s1)"
    for env :: "'sg environment" and s s1 :: "'sg Fingerprinter"
    using that
    by (auto simp: window_body_def accumulated_def analyze_window_def convert_to_dB_def
        lock_fingerprint_def pthread_mutex_lock_def pthread_mutex_unlock_def emit_def Let_def
        split: if_splits)
  show ?thesis
    by (relation "measure (\<lambda>(env, s). nat (fbIndex s - int specRes - startIndex s + 1))")
      (use step in \<open>auto dest!: cursors\<close>)
qed

declare window_loop.simps [simp del]

definition callback ::
  "'sg environment \<Rightarrow> 'sg Fingerprinter \<Rightarrow> nat \<Rightarrow> int list option \<Rightarrow>
     fault + int \<times> int list \<times> 'sg Fingerprinter" where
  "callback env s inNumberFrames ioData =
     (let windowFrames = int specRes;
          s0 = (if u32 windowFrames < int inNumberFrames
                then emit (Print ''Error: buffer is too small.'') s else s)
      in case ioData of
           None \<Rightarrow> Inr (1, [], emit (Print ''Error: Callback: AudioUnitRender'') s0)
         | Some data \<Rightarrow>
             (case frame_assemble s0 inNumberFrames data of
                Inl f \<Rightarrow> Inl f
              | Inr s1 \<Rightarrow>
                  let zeroed = vDSP_vfilli 0 inNumberFrames
                  in if fbIndex s1 < windowFrames then Inr (0, zeroed, s1)
                     else (case window_loop env s1 of
                             Inl f \<Rightarrow> Inl f
                           | Inr (r, s2) \<Rightarrow> Inr (r, zeroed, s2))))"

text \<open>
  The audio unit calls the callback once for every buffer it has rendered; \<open>feed\<close> runs
  the callback on a sequence of rendered buffers.
\<close>

fun feed :: "'sg environment \<Rightarrow> 'sg Fingerprinter \<Rightarrow> int list list \<Rightarrow> fault + 'sg Fingerprinter"
  where
  "feed env s [] = Inr s"
| "feed env s (d # ds) =
     (case callback env s (length d) (Some d) of
        Inl f \<Rightarrow> Inl f
      | Inr (r, out, s1) \<Rightarrow> feed env s1 ds)"

text \<open>
  The analysis as the specification describes it, to compare the loop with: the start
  positions of the windows that fit below the write cursor, one hop apart, and the
  analysis of a given list of windows in order, which ends early only where the body of
  the loop returns or faults.
\<close>

definition window_positions :: "int \<Rightarrow> int \<Rightarrow> int list" where
  "window_positions si fi =
     map (\<lambda>k. si + stepSize * int k) [0..<nat ((fi - int specRes - si) div stepSize + 1)]"

fun run_windows ::
  "'sg environment \<Rightarrow> int list \<Rightarrow> 'sg Fingerprinter \<Rightarrow> fault + int \<times> 'sg Fingerprinter" where
  "run_windows env [] s = Inr (0, s)"
| "run_windows env (p # ps) s =
     (case window_body env (s\<lparr>startIndex := p\<rparr>) of
        Inl f \<Rightarrow> Inl f
      | Inr (Return r, s1) \<Rightarrow> Inr (r, s1)
      | Inr (Continue, s1) \<Rightarrow> run_windows env ps (s1\<lparr>startIndex := p + stepSize\<rparr>))"

definition windowed :: "'sg Fingerprinter \<Rightarrow> float list" where
  \<comment> \<open>what the transform is given: the window at the analysis cursor, multiplied
      elementwise by the window function, and after it the upper half of \<^verbatim>\<open>A\<close>\<close>
  "windowed s =
     map2 fmul (take specRes (drop (nat (startIndex s)) (frameBuffer s))) (hamm s) @
     drop specRes (bufA s)"

subsection \<open>The public members\<close>

text \<open>
  The constructor, with \<^verbatim>\<open>setupRemoteIO\<close>, on the path on which the audio session
  and the audio unit are set up without error. The arrays \<^verbatim>\<open>A\<close> and
  \<^verbatim>\<open>frameBuffer\<close> come from \<^verbatim>\<open>new float[...]\<close> and are not initialised: their
  first contents are parameters.
\<close>

definition Fingerprinter_new ::
  "'sg environment \<Rightarrow> float list \<Rightarrow> float list \<Rightarrow> 'sg Fingerprinter" where
  "Fingerprinter_new env uninitA uninitFB =
     \<lparr>unitIsRunning = False,
      fingerprint = replicate fpLength (Num 0),
      lock = False,
      spectrogram = sg_new env fpLength historyCount,
      bufA = uninitA,
      hamm = vDSP_hamm_window specRes,
      accum = vDSP_vfill (Num 0) fpLength,
      accCount = 0,
      frameBuffer = uninitFB,
      fbIndex = 0,
      startIndex = 0,
      fbLen = fbLen_setup,
      trace = []\<rparr>"

definition getFingerprint ::
  "'sg environment \<Rightarrow> 'sg Fingerprinter \<Rightarrow> float list \<Rightarrow> bool \<times> float list \<times> 'sg Fingerprinter"
  where
  "getFingerprint env s outBuf =
     (if unitIsRunning s
      then let s1 = lock_fingerprint (lockStatus env) s;
               out = store outBuf 0 (take fpLength (fingerprint s1))
           in (True, out, pthread_mutex_unlock (emit (Memcpy (lock s1)) s1))
      else (False, outBuf, s))"

text \<open>
  The audio unit answers \<^verbatim>\<open>startRecording\<close> and \<^verbatim>\<open>stopRecording\<close> with the
  status of each call and with the value of its \<^verbatim>\<open>IsRunning\<close> property.
  \<^verbatim>\<open>XThrowIfError\<close> throws on a status other than 0, and neither member catches: the
  exception, named here after the call that failed, leaves the member with the state as
  it is at that point.
\<close>

record audio_unit =
  startStatus :: int
  formatStatus :: int
  isRunningStatus :: int
  running :: nat
  stopStatus :: int

datatype exception = CAXException string int

definition startRecording ::
  "audio_unit \<Rightarrow> 'sg Fingerprinter \<Rightarrow>
     exception \<times> 'sg Fingerprinter + bool \<times> 'sg Fingerprinter" where
  "startRecording au s =
     (if \<not> unitIsRunning s
      then if startStatus au \<noteq> 0
           then Inl (CAXException ''AudioOutputUnitStart'' (startStatus au), s)
           else if formatStatus au \<noteq> 0
           then Inl (CAXException ''AudioUnitGetProperty StreamFormat'' (formatStatus au), s)
           else
             let s1 = emit (Print ''Started audio with format:'') s
             in if isRunningStatus au \<noteq> 0
                then Inl (CAXException ''AudioUnitGetProperty IsRunning'' (isRunningStatus au), s1)
                else
                  let s2 = (if running au \<noteq> 0 then s1\<lparr>unitIsRunning := True\<rparr>
                            else emit (Print ''startRecording failed!'') s1)
                  in Inr (unitIsRunning s2, s2)
      else Inr (unitIsRunning s, s))"

definition stopRecording ::
  "audio_unit \<Rightarrow> 'sg Fingerprinter \<Rightarrow>
     exception \<times> 'sg Fingerprinter + bool \<times> 'sg Fingerprinter" where
  "stopRecording au s =
     (if unitIsRunning s
      then let s1 = emit (Print ''stopped recording'') s
           in if stopStatus au \<noteq> 0
              then Inl (CAXException ''AudioOutputUnitStop'' (stopStatus au), s1)
              else let s2 = s1\<lparr>unitIsRunning := False\<rparr> in Inr (unitIsRunning s2, s2)
      else Inr (unitIsRunning s, s))"

text \<open>
  A client calls the public members, and the audio unit calls the callback, in some
  order. \<open>perform\<close> gives the object after one such call, whatever the call returns or
  throws; a fault of the callback leaves no state. \<open>perform_all\<close> does so for a sequence of
  calls.
\<close>

datatype call =
    StartRecording audio_unit
  | StopRecording audio_unit
  | GetFingerprint "float list"
  | RenderCallback nat "int list option"

fun perform :: "'sg environment \<Rightarrow> 'sg Fingerprinter \<Rightarrow> call \<Rightarrow> 'sg Fingerprinter option" where
  "perform env s (StartRecording au) =
     Some (case startRecording au s of Inl (e, s1) \<Rightarrow> s1 | Inr (b, s1) \<Rightarrow> s1)"
| "perform env s (StopRecording au) =
     Some (case stopRecording au s of Inl (e, s1) \<Rightarrow> s1 | Inr (b, s1) \<Rightarrow> s1)"
| "perform env s (GetFingerprint outBuf) = Some (snd (snd (getFingerprint env s outBuf)))"
| "perform env s (RenderCallback n ioData) =
     (case callback env s n ioData of Inl f \<Rightarrow> None | Inr (r, out, s1) \<Rightarrow> Some s1)"

fun perform_all ::
  "'sg environment \<Rightarrow> 'sg Fingerprinter \<Rightarrow> call list \<Rightarrow> 'sg Fingerprinter option" where
  "perform_all env s [] = Some s"
| "perform_all env s (c # cs) =
     (case perform env s c of None \<Rightarrow> None | Some s1 \<Rightarrow> perform_all env s1 cs)"

definition verified :: "audio_unit \<Rightarrow> bool" where
  \<comment> \<open>every call of \<open>startRecording\<close> on the audio unit succeeds, and the unit reports
      itself running\<close>
  "verified au =
     (startStatus au = 0 \<and> formatStatus au = 0 \<and> isRunningStatus au = 0 \<and> running au \<noteq> 0)"

subsection \<open>A reference environment\<close>

text \<open>
  The theorems about the callback hold for every environment. To run the callback on
  concrete inputs, one environment is fixed. Its transform is the discrete Fourier
  transform that \<^verbatim>\<open>vDSP_ctoz\<close>, \<^verbatim>\<open>vDSP_fft_zip\<close> and \<^verbatim>\<open>vDSP_zaspec\<close>
  compute: the \<open>2 \<times> specRes\<close> floats of \<^verbatim>\<open>A\<close> are read as \<open>specRes\<close> complex
  numbers, and bin \<open>k\<close> of the result is the squared magnitude of their \<open>k\<close>-th Fourier
  coefficient. Every bin is a sum over all inputs, so one input that is not a number
  makes every bin NaN.
\<close>

definition dft_power :: "float list \<Rightarrow> float list" where
  "dft_power A =
     (if list_all is_Num (take (2 * specRes) A)
      then map (\<lambda>k. Num ((cmod (\<Sum>n<specRes.
                   Complex (the_Num (A ! (2 * n))) (the_Num (A ! (2 * n + 1))) *
                   cis (- 2 * pi * real k * real n / real specRes)))\<^sup>2)) [0..<specRes]
      else replicate specRes NaN)"

text \<open>
  Modelled from the spec: the \<^verbatim>\<open>Spectrogram\<close> class, of which the sources hold the
  header \<^verbatim>\<open>Spectrogram.h\<close> but neither \<^verbatim>\<open>Spectrogram.cpp\<close> nor the sliding
  window it is built from. There is one sliding window for each frequency bin, a FIFO of
  depth \<open>timeBins\<close>: on a push into a full window the oldest value is evicted before the
  newest is inserted. \<open>update\<close> pushes \<open>spectrum[i]\<close> into window \<open>i\<close>. \<open>getSummary\<close>
  fills the buffer with the 5th percentile of each window by nearest rank: the window
  sorted ascending, the value at rank \<open>\<lceil>0.05 \<times> count\<rceil>\<close>, counting from 1; for an
  empty window, 0.
\<close>

record Spectrogram =
  freqBins :: nat
  timeBins :: nat
  slidingWindows :: "float list list"

definition Spectrogram_new :: "nat \<Rightarrow> nat \<Rightarrow> Spectrogram" where
  "Spectrogram_new freq_bins time_bins =
     \<lparr>freqBins = freq_bins, timeBins = time_bins, slidingWindows = replicate freq_bins []\<rparr>"

definition push :: "nat \<Rightarrow> float list \<Rightarrow> float \<Rightarrow> float list" where
  "push depth w v = (if depth \<le> length w then tl w @ [v] else w @ [v])"

definition Spectrogram_update :: "Spectrogram \<Rightarrow> float list \<Rightarrow> Spectrogram" where
  "Spectrogram_update sg spectrum =
     sg\<lparr>slidingWindows := map2 (push (timeBins sg)) (slidingWindows sg) spectrum\<rparr>"

fun insert_ascending :: "float \<Rightarrow> float list \<Rightarrow> float list" where
  "insert_ascending x [] = [x]"
| "insert_ascending x (y # ys) = (if fle x y then x # y # ys else y # insert_ascending x ys)"

definition percentile5 :: "float list \<Rightarrow> float" where
  "percentile5 w =
     (if w = [] then Num 0
      else foldr insert_ascending w [] ! ((length w + 19) div 20 - 1))"

definition Spectrogram_getSummary :: "Spectrogram \<Rightarrow> float list \<Rightarrow> float list" where
  "Spectrogram_getSummary sg outBuf = store outBuf 0 (map percentile5 (slidingWindows sg))"

definition reference_environment :: "Spectrogram environment" where
  "reference_environment =
     \<lparr>powerSpectrum = dft_power,
      sg_new = Spectrogram_new,
      sg_update = Spectrogram_update,
      sg_getSummary = Spectrogram_getSummary,
      lockStatus = 0\<rparr>"

subsection \<open>Concrete states\<close>

text \<open>
  An audio unit that starts and reports itself running; a freshly constructed object in
  the reference environment, whose frame buffer happens to hold zeros and whose scratch
  array \<^verbatim>\<open>A\<close> happens to hold NaN; and the states that this object reaches once it
  has been started and fed silence. The program never writes the upper half of
  \<^verbatim>\<open>A\<close>, but \<^verbatim>\<open>vDSP_ctoz\<close> reads all of it, so from the first window on every
  power spectrum, and with it the accumulator, is NaN.
\<close>

definition audio_unit_ok :: audio_unit where
  "audio_unit_ok =
     \<lparr>startStatus = 0, formatStatus = 0, isRunningStatus = 0, running = 1, stopStatus = 0\<rparr>"

definition fresh :: "Spectrogram Fingerprinter" where
  "fresh = Fingerprinter_new reference_environment
             (replicate (2 * specRes) NaN) (replicate fbLen_setup (Num 0))"

definition poisoned ::
  "float list \<Rightarrow> int \<Rightarrow> int \<Rightarrow> int \<Rightarrow> event list \<Rightarrow> Spectrogram Fingerprinter" where
  "poisoned a fi si c tr =
     fresh\<lparr>unitIsRunning := True, accum := a, accCount := c, fbIndex := fi, startIndex := si,
           trace := Print ''Started audio with format:'' # tr\<rparr>"

subsection \<open>The values of the constants\<close>

lemma f64_hundredth: "f64 (1 / 100) = 5764607523034235 / 2 ^ 59"
  unfolding f64_def by code_simp

lemma windowOffset_value: "windowOffset = 10737418 / 2 ^ 30"
proof -
  have "f32 (5764607523034235 / 2 ^ 59) = 10737418 / 2 ^ 30"
    unfolding f32_def by code_simp
  then show ?thesis
    by (simp only: windowOffset_def f64_hundredth)
qed

lemma freqCutoff_value: "freqCutoff = 7000"
proof -
  have a: "f64 7000 = 7000" unfolding f64_def by code_simp
  have b: "f32 7000 = 7000" unfolding f32_def by code_simp
  show ?thesis by (simp only: freqCutoff_def a b)
qed

lemma historyCount_value: "historyCount = 100"
proof -
  have a: "f32 1 = 1"
    unfolding f32_def by code_simp
  have b: "f32 (1 / (10737418 / 2 ^ 30)) = 100"
    unfolding f32_def by code_simp
  have "historyTime div accumulationNum = 1"
    by (simp add: historyTime_def accumulationNum_def)
  then have "historyCount = nat \<lfloor>f32 (f32 1 / windowOffset)\<rfloor>"
    by (simp add: historyCount_def)
  also have "\<dots> = nat \<lfloor>100 :: rat\<rfloor>"
    by (simp only: a windowOffset_value b)
  finally show ?thesis by simp
qed

lemma fpLength_value: "fpLength = 325"
proof -
  have a: "f32 1024 = 1024"
    unfolding f32_def by code_simp
  have b: "f32 (1024 * 7000) = 7168000"
    unfolding f32_def by code_simp
  have c: "f64 22050 = 22050"
    unfolding f64_def by code_simp
  have d: "\<lfloor>f64 (7168000 / 22050)\<rfloor> = 325"
    unfolding f64_def by code_simp
  have "fpLength = nat \<lfloor>f64 (f32 (f32 1024 * freqCutoff) / f64 22050)\<rfloor>"
    by (simp add: fpLength_def specRes_def)
  also have "\<dots> = nat 325"
    by (simp only: a freqCutoff_value b c d)
  finally show ?thesis by simp
qed

lemma stepSize_value: "stepSize = 441"
proof -
  have a: "f32 44100 = 44100"
    unfolding f32_def by code_simp
  have b: "f32 (10737418 / 2 ^ 30 * 44100) = 441"
    unfolding f32_def by code_simp
  have "stepSize = \<lfloor>f32 (windowOffset * f32 44100)\<rfloor>"
    by (simp add: stepSize_def sampleRate_def)
  also have "\<dots> = \<lfloor>441 :: rat\<rfloor>"
    by (simp only: a windowOffset_value b)
  finally show ?thesis by simp
qed

lemma fbLen_setup_value: "fbLen_setup = 22050"
proof -
  have a: "f64 (1 / 2) = 1 / 2"
    unfolding f64_def by code_simp
  have b: "f64 44100 = 44100"
    unfolding f64_def by code_simp
  have c: "f64 (1 / 2 * 44100) = 22050"
    unfolding f64_def by code_simp
  have "fbLen_setup = nat \<lfloor>f64 (f64 (1 / 2) * f64 44100)\<rfloor>"
    by (simp add: fbLen_setup_def sampleRate_def)
  also have "\<dots> = nat \<lfloor>22050 :: rat\<rfloor>"
    by (simp only: a b c)
  finally show ?thesis by simp
qed

text \<open>
  C9: with the constants as compiled, \<open>fpLength\<close> is 325 and \<open>historyCount\<close> is 100, and
  these are the values of the specification's formulas: 325 is the integer part of
  \<open>specRes \<times> freqCutoff / (sampleRate / 2)\<close>, and 100 is exactly
  \<open>historyTime / (accumulationNum \<times> windowOffset)\<close>, although the code divides
  \<open>historyTime\<close> by \<open>accumulationNum\<close> in integers first and then by the float 0.01.
\<close>

theorem derived_constants:
  "fpLength = 325 \<and> historyCount = 100 \<and>
   int fpLength = \<lfloor>spec_fpLength\<rfloor> \<and> of_nat historyCount = spec_historyCount"
proof -
  have "spec_fpLength = 20480 / 63"
    by (simp add: spec_fpLength_def specRes_def sampleRate_def)
  then have "\<lfloor>spec_fpLength\<rfloor> = 325"
    by (simp add: floor_eq_iff)
  moreover have "spec_historyCount = 100"
    unfolding spec_historyCount_def historyTime_def accumulationNum_def by simp
  ultimately show ?thesis
    by (simp add: fpLength_value historyCount_value)
qed

subsection \<open>The frame assembler\<close>

lemma shift_buffer_frameBuffer:
  assumes "length (frameBuffer s) = fbLen s" and "even (fbLen s)"
  shows "frameBuffer (shift_buffer s) =
         take (fbLen s div 2) (frameBuffer s) @ take (fbLen s div 2) (frameBuffer s)"
proof -
  have "fbLen s div 2 + fbLen s div 2 = fbLen s"
    using assms(2) by presburger
  then show ?thesis
    using assms(1) by (simp add: shift_buffer_def store_def Let_def min_def)
qed

text \<open>
  C1: when the write cursor is within \<open>n\<close> of the end of the buffer, the callback is to
  move the unconsumed tail of the buffer to the front before it copies the new samples.
  It decrements both cursors by half the capacity, but its \<^verbatim>\<open>memcpy\<close> copies the
  other way. In the run below the buffer of 22050 floats holds the older samples (all 1)
  in its first half and the newer ones (all 2) in its second; the write cursor is at
  21504, the analysis cursor at 20727, and 1024 samples of value 3 arrive. Afterwards
  the cursors are 11503 and 9702, and no sample of value 2 is left anywhere: the
  unconsumed tail \<open>20727 \<dots> 21503\<close> is lost, and the window that starts at 9702 reads
  the old samples again.
\<close>

theorem frame_assemble_overwrites_tail:
  "frame_assemble
     (s\<lparr>frameBuffer := replicate 11025 (Num 1) @ replicate 11025 (Num 2),
        fbIndex := 21504, startIndex := 20727, fbLen := 22050\<rparr>)
     1024 (replicate 1024 3) =
   Inr (s\<lparr>frameBuffer :=
            replicate 10479 (Num 1) @ replicate 1024 (Num 3) @ replicate 10547 (Num 1),
          fbIndex := 11503, startIndex := 9702, fbLen := 22050\<rparr>)"
  by (simp add: frame_assemble_def shift_buffer_def store_def vDSP_vflt32_def u32_def s32_def
      Let_def)

subsection \<open>What the window loop preserves\<close>

lemma window_loop_invariant:
  "window_loop env s = Inr (r, s') \<Longrightarrow>
   (\<And>s fl s1. window_body env s = Inr (fl, s1) \<Longrightarrow> P s \<Longrightarrow> P s1) \<Longrightarrow>
   (\<And>s x. P s \<Longrightarrow> P (s\<lparr>startIndex := x\<rparr>)) \<Longrightarrow> P s \<Longrightarrow> P s'"
proof (induction env s rule: window_loop.induct)
  case (1 env s)
  note body = "1.prems"(2) and cursor = "1.prems"(3)
  show ?case
  proof (cases "startIndex s \<le> fbIndex s - int specRes")
    case False
    with "1.prems"(1,4) show ?thesis
      by (simp add: window_loop.simps [of env s])
  next
    case True
    show ?thesis
    proof (cases "window_body env s")
      case (Inl f)
      with True "1.prems"(1) show ?thesis
        by (simp add: window_loop.simps [of env s])
    next
      case (Inr p)
      obtain fl s1 where p: "p = (fl, s1)"
        by (cases p)
      have P1: "P s1"
        using body [of s fl s1] Inr p "1.prems"(4) by simp
      show ?thesis
      proof (cases fl)
        case Continue
        with True Inr p "1.prems"(1)
        have "window_loop env (s1\<lparr>startIndex := startIndex s1 + stepSize\<rparr>) = Inr (r, s')"
          by (simp add: window_loop.simps [of env s])
        moreover have "P (s1\<lparr>startIndex := startIndex s1 + stepSize\<rparr>)"
          using P1 by (rule cursor)
        ultimately show ?thesis
          using "1.IH" [OF True Inr [unfolded p] _ refl] Continue body cursor by blast
      next
        case (Return x)
        with True Inr p "1.prems"(1) P1 show ?thesis
          by (simp add: window_loop.simps [of env s])
      qed
    qed
  qed
qed

lemma window_body_unitIsRunning:
  "window_body env s = Inr (fl, s') \<Longrightarrow> unitIsRunning s' = unitIsRunning s"
  by (auto simp: window_body_def accumulated_def analyze_window_def convert_to_dB_def
      lock_fingerprint_def pthread_mutex_lock_def pthread_mutex_unlock_def emit_def Let_def
      split: if_splits)

lemma window_loop_unitIsRunning:
  assumes "window_loop env s = Inr (r, s')"
  shows "unitIsRunning s' = unitIsRunning s"
proof -
  have "unitIsRunning s' = unitIsRunning s"
    by (rule window_loop_invariant [OF assms, where P = "\<lambda>t. unitIsRunning t = unitIsRunning s"])
      (simp_all add: window_body_unitIsRunning)
  then show ?thesis .
qed

lemma callback_unitIsRunning:
  "callback env s n ioData = Inr (r, out, s') \<Longrightarrow> unitIsRunning s' = unitIsRunning s"
  by (auto simp: callback_def frame_assemble_def shift_buffer_def emit_def Let_def
      split: option.splits sum.splits if_splits prod.splits
      dest!: window_loop_unitIsRunning)

lemma perform_unitIsRunning:
  assumes "perform env s c = Some s1" and "unitIsRunning s1"
  shows "unitIsRunning s \<or> (\<exists>au. c = StartRecording au \<and> verified au)"
proof (cases c)
  case (StartRecording au)
  with assms show ?thesis
    by (auto simp: startRecording_def verified_def emit_def Let_def split: if_splits)
next
  case (StopRecording au)
  with assms show ?thesis
    by (auto simp: stopRecording_def emit_def Let_def split: if_splits)
next
  case (GetFingerprint outBuf)
  with assms show ?thesis
    by (auto simp: getFingerprint_def lock_fingerprint_def pthread_mutex_lock_def
        pthread_mutex_unlock_def emit_def Let_def split: if_splits)
next
  case (RenderCallback n ioData)
  with assms show ?thesis
    by (auto split: sum.splits dest: callback_unitIsRunning)
qed

lemma perform_all_unitIsRunning:
  "perform_all env s cs = Some s1 \<Longrightarrow> unitIsRunning s1 \<Longrightarrow>
     unitIsRunning s \<or> (\<exists>au. StartRecording au \<in> set cs \<and> verified au)"
proof (induction cs arbitrary: s)
  case Nil
  then show ?case by simp
next
  case (Cons c cs)
  from Cons.prems(1) obtain s2 where c: "perform env s c = Some s2"
    and cs: "perform_all env s2 cs = Some s1"
    by (auto split: option.splits)
  from Cons.IH [OF cs Cons.prems(2)]
  have "unitIsRunning s2 \<or> (\<exists>au. StartRecording au \<in> set cs \<and> verified au)" .
  then show ?case
  proof
    assume "unitIsRunning s2"
    from perform_unitIsRunning [OF c this] show ?thesis
      by auto
  next
    assume "\<exists>au. StartRecording au \<in> set cs \<and> verified au"
    then show ?thesis
      by auto
  qed
qed

subsection \<open>Start, stop and snapshot\<close>

lemma start_fresh:
  "startRecording audio_unit_ok fresh = Inr (True, poisoned (replicate fpLength (Num 0)) 0 0 0 [])"
  by (simp add: startRecording_def audio_unit_ok_def poisoned_def fresh_def
      Fingerprinter_new_def vDSP_vfill_def emit_def Let_def)

text \<open>
  C7: \<open>startRecording\<close> on a running unit and \<open>stopRecording\<close> on an idle one change
  nothing and return the running flag as it is. A \<open>startRecording\<close> that finds the unit
  idle returns true only if every call on the audio unit succeeded and the unit
  reported itself running; and after any sequence of calls on a new object, a
  \<open>startRecording\<close> returns true only if this call or an earlier \<open>startRecording\<close> of
  the sequence has verified so.
\<close>

theorem start_stop_idempotent:
  "(unitIsRunning s \<longrightarrow> startRecording au s = Inr (True, s)) \<and>
   (\<not> unitIsRunning s \<longrightarrow> stopRecording au s = Inr (False, s)) \<and>
   (\<not> unitIsRunning s \<and> startRecording au s = Inr (True, s') \<longrightarrow> verified au) \<and>
   (perform_all env (Fingerprinter_new env uninitA uninitFB) cs = Some s \<and>
    startRecording au s = Inr (True, s') \<longrightarrow>
      verified au \<or> (\<exists>au'. StartRecording au' \<in> set cs \<and> verified au'))"
proof (intro conjI impI)
  show "startRecording au s = Inr (True, s)" if "unitIsRunning s"
    using that by (simp add: startRecording_def)
  show "stopRecording au s = Inr (False, s)" if "\<not> unitIsRunning s"
    using that by (simp add: stopRecording_def)
  show idle: "verified au" if "\<not> unitIsRunning s \<and> startRecording au s = Inr (True, s')"
    using that
    by (auto simp: startRecording_def verified_def emit_def Let_def split: if_splits)
  show "verified au \<or> (\<exists>au'. StartRecording au' \<in> set cs \<and> verified au')"
    if h: "perform_all env (Fingerprinter_new env uninitA uninitFB) cs = Some s \<and>
           startRecording au s = Inr (True, s')"
  proof (cases "unitIsRunning s")
    case False
    with h idle show ?thesis
      by blast
  next
    case True
    have "\<not> unitIsRunning (Fingerprinter_new env uninitA uninitFB)"
      by (simp add: Fingerprinter_new_def)
    with perform_all_unitIsRunning [of env _ cs s] h True show ?thesis
      by blast
  qed
qed

theorem start_stop_idempotent_witness:
  "unitIsRunning (poisoned (replicate fpLength (Num 0)) 0 0 0 []) \<and>
   startRecording audio_unit_ok (poisoned (replicate fpLength (Num 0)) 0 0 0 []) =
     Inr (True, poisoned (replicate fpLength (Num 0)) 0 0 0 []) \<and>
   \<not> unitIsRunning fresh \<and>
   stopRecording audio_unit_ok fresh = Inr (False, fresh) \<and>
   startRecording audio_unit_ok fresh =
     Inr (True, poisoned (replicate fpLength (Num 0)) 0 0 0 []) \<and>
   verified audio_unit_ok \<and>
   perform_all reference_environment
     (Fingerprinter_new reference_environment (replicate (2 * specRes) NaN)
        (replicate fbLen_setup (Num 0)))
     [StartRecording audio_unit_ok] =
     Some (poisoned (replicate fpLength (Num 0)) 0 0 0 []) \<and>
   (verified audio_unit_ok \<or>
    (\<exists>au'. StartRecording au' \<in> set [StartRecording audio_unit_ok] \<and> verified au'))"
proof -
  let ?started = "poisoned (replicate fpLength (Num 0)) 0 0 0 []"
  note main = start_stop_idempotent
  have r: "unitIsRunning ?started"
    by (simp add: poisoned_def)
  have i: "\<not> unitIsRunning fresh"
    by (simp add: fresh_def Fingerprinter_new_def)
  from main [of ?started audio_unit_ok] r
  have a: "startRecording audio_unit_ok ?started = Inr (True, ?started)"
    by blast
  from main [of fresh audio_unit_ok] i
  have b: "stopRecording audio_unit_ok fresh = Inr (False, fresh)"
    by blast
  from main [of fresh audio_unit_ok ?started] i start_fresh
  have c: "verified audio_unit_ok"
    by blast
  have d: "perform_all reference_environment
     (Fingerprinter_new reference_environment (replicate (2 * specRes) NaN)
        (replicate fbLen_setup (Num 0)))
     [StartRecording audio_unit_ok] = Some ?started"
    using start_fresh by (simp add: fresh_def)
  from main [of ?started audio_unit_ok ?started reference_environment
      "replicate (2 * specRes) NaN" "replicate fbLen_setup (Num 0)"
      "[StartRecording audio_unit_ok]"] d a
  have e: "verified audio_unit_ok \<or>
    (\<exists>au'. StartRecording au' \<in> set [StartRecording audio_unit_ok] \<and> verified au')"
    by blast
  from r i a b c d e start_fresh show ?thesis
    by blast
qed

text \<open>
  C6, as amended. While the unit is not running, \<open>getFingerprint\<close> returns false and
  leaves the caller's buffer and the object as they are. While it is running, it returns
  true, the first \<open>fpLength\<close> floats of the buffer are the stored fingerprint and the
  rest of the buffer is untouched; the copy is made between the call that locks the
  fingerprint mutex and the call that unlocks it, and the mutex is free afterwards. The
  copy is made with the mutex held whenever the lock call returns 0; a lock call that
  fails is only reported, and the copy is made all the same.
\<close>

theorem getFingerprint_spec:
  "(\<not> unitIsRunning s \<longrightarrow> getFingerprint env s outBuf = (False, outBuf, s)) \<and>
   (unitIsRunning s \<and> length (fingerprint s) = fpLength \<and> fpLength \<le> length outBuf \<longrightarrow>
      getFingerprint env s outBuf =
        (True, fingerprint s @ drop fpLength outBuf,
         s\<lparr>lock := False,
           trace := trace s @ MutexLock (lockStatus env) #
             (if lockStatus env = 0 then [] else [Print ''lock failed!'']) @
             [Memcpy (lock s \<or> lockStatus env = 0), MutexUnlock]\<rparr>)) \<and>
   (unitIsRunning s \<and> lockStatus env = 0 \<longrightarrow>
      lock (lock_fingerprint (lockStatus env) s) \<and>
      getFingerprint env s outBuf =
        (True, store outBuf 0 (take fpLength (fingerprint s)),
         s\<lparr>lock := False,
           trace := trace s @ [MutexLock 0, Memcpy True, MutexUnlock]\<rparr>))"
  by (auto simp: getFingerprint_def lock_fingerprint_def pthread_mutex_lock_def
      pthread_mutex_unlock_def emit_def store_def Let_def)

theorem getFingerprint_spec_witness:
  "\<not> unitIsRunning fresh \<and>
   getFingerprint reference_environment fresh (replicate 400 (Num 7)) =
     (False, replicate 400 (Num 7), fresh) \<and>
   unitIsRunning (poisoned (replicate fpLength (Num 0)) 0 0 0 []) \<and>
   lockStatus reference_environment = 0 \<and>
   lock (lock_fingerprint (lockStatus reference_environment)
           (poisoned (replicate fpLength (Num 0)) 0 0 0 [])) \<and>
   getFingerprint reference_environment (poisoned (replicate fpLength (Num 0)) 0 0 0 [])
       (replicate 400 (Num 7)) =
     (True, replicate 325 (Num 0) @ replicate 75 (Num 7),
      poisoned (replicate fpLength (Num 0)) 0 0 0 [MutexLock 0, Memcpy True, MutexUnlock])"
proof -
  let ?started = "poisoned (replicate fpLength (Num 0)) 0 0 0 []"
  note main = getFingerprint_spec
  have i: "\<not> unitIsRunning fresh"
    by (simp add: fresh_def Fingerprinter_new_def)
  have r: "unitIsRunning ?started \<and> length (fingerprint ?started) = fpLength \<and>
           fpLength \<le> length (replicate 400 (Num 7))"
    by (simp add: poisoned_def fresh_def Fingerprinter_new_def fpLength_value)
  have z: "lockStatus reference_environment = 0"
    by (simp add: reference_environment_def)
  from main [of fresh reference_environment "replicate 400 (Num 7)"] i
  have a: "getFingerprint reference_environment fresh (replicate 400 (Num 7)) =
           (False, replicate 400 (Num 7), fresh)"
    by blast
  from main [of ?started reference_environment "replicate 400 (Num 7)"] r
  have "getFingerprint reference_environment ?started (replicate 400 (Num 7)) =
        (True, fingerprint ?started @ drop fpLength (replicate 400 (Num 7)),
         ?started\<lparr>lock := False,
           trace := trace ?started @ MutexLock (lockStatus reference_environment) #
             (if lockStatus reference_environment = 0 then [] else [Print ''lock failed!'']) @
             [Memcpy (lock ?started \<or> lockStatus reference_environment = 0),
              MutexUnlock]\<rparr>)"
    by blast
  then have b: "getFingerprint reference_environment ?started (replicate 400 (Num 7)) =
        (True, replicate 325 (Num 0) @ replicate 75 (Num 7),
         poisoned (replicate fpLength (Num 0)) 0 0 0
           [MutexLock 0, Memcpy True, MutexUnlock])"
    by (simp add: poisoned_def fresh_def Fingerprinter_new_def reference_environment_def
        fpLength_value)
  from main [of ?started reference_environment "replicate 400 (Num 7)"] r z
  have c: "lock (lock_fingerprint (lockStatus reference_environment) ?started)"
    by blast
  from i r z a b c show ?thesis
    by simp
qed

text \<open>
  C6 as stated fails where the lock call fails: the claim has every copy made under the
  lock. Here \<^verbatim>\<open>pthread_mutex_lock\<close> returns the error 22 on a running object whose
  mutex is free. \<open>getFingerprint\<close> prints, copies the fingerprint with the mutex not
  held, and returns true.
\<close>

theorem getFingerprint_copies_without_lock:
  "getFingerprint (reference_environment\<lparr>lockStatus := 22\<rparr>)
     (poisoned (replicate fpLength (Num 0)) 0 0 0 []) (replicate 400 (Num 7)) =
     (True, replicate 325 (Num 0) @ replicate 75 (Num 7),
      poisoned (replicate fpLength (Num 0)) 0 0 0
        [MutexLock 22, Print ''lock failed!'', Memcpy False, MutexUnlock]) \<and>
   \<not> lock (lock_fingerprint 22 (poisoned (replicate fpLength (Num 0)) 0 0 0 []))"
  by (simp add: getFingerprint_def lock_fingerprint_def pthread_mutex_lock_def
      pthread_mutex_unlock_def emit_def store_def Let_def poisoned_def fresh_def
      Fingerprinter_new_def reference_environment_def fpLength_value)

text \<open>
  C3: \<open>getFingerprint\<close> is to fail before \<open>startRecording\<close> has ever been called, and
  after it to succeed only once a full accumulation cycle of \<open>accumulationNum\<close> windows
  has completed. The first half holds: a new object is not running, nothing but a
  verified \<open>startRecording\<close> sets the flag, and \<open>getFingerprint\<close> fails while it is
  unset. The second half does not: here \<open>getFingerprint\<close> is called directly after a
  successful \<open>startRecording\<close> on a new object, before the callback has run at all, and
  it returns true with the zeros that the constructor put into the fingerprint. The
  comment in \<open>getFingerprint\<close> marks the missing test as still to be done.
\<close>

theorem snapshot_succeeds_before_first_cycle:
  "startRecording audio_unit_ok (Fingerprinter_new env uninitA uninitFB) =
     Inr (True, (Fingerprinter_new env uninitA uninitFB)
                  \<lparr>unitIsRunning := True, trace := [Print ''Started audio with format:'']\<rparr>) \<and>
   fst (getFingerprint env
          ((Fingerprinter_new env uninitA uninitFB)
             \<lparr>unitIsRunning := True, trace := [Print ''Started audio with format:'']\<rparr>)
          outBuf) = True \<and>
   fst (snd (getFingerprint env
          ((Fingerprinter_new env uninitA uninitFB)
             \<lparr>unitIsRunning := True, trace := [Print ''Started audio with format:'']\<rparr>)
          outBuf)) = replicate fpLength (Num 0) @ drop fpLength outBuf"
  by (simp add: startRecording_def getFingerprint_def audio_unit_ok_def Fingerprinter_new_def
      lock_fingerprint_def pthread_mutex_lock_def emit_def store_def Let_def)

subsection \<open>Running the callback on silence with NaN in the scratch array\<close>

lemma store_replicate:
  "i + k \<le> m \<Longrightarrow> store (replicate m x) i (replicate k x) = replicate m x"
  by (simp add: store_def min_def flip: replicate_add)

lemma store_whole: "length xs = length buf \<Longrightarrow> store buf 0 xs = xs"
  by (simp add: store_def)

lemma vmul_zero_hamm:
  "vDSP_vmul (replicate n (Num 0) @ xs) (vDSP_hamm_window n) n = replicate n (Num 0)"
  by (simp add: vDSP_vmul_def vDSP_hamm_window_def list_eq_iff_nth_eq)

lemma dft_power_NaN:
  "NaN \<in> set (take (2 * specRes) A) \<Longrightarrow> dft_power A = replicate specRes NaN"
  by (auto simp: dft_power_def list_all_iff)

lemma analyze_window_poisoned:
  assumes "length a = fpLength" and "0 \<le> si" and "si + 1024 \<le> 22050"
  shows "analyze_window reference_environment (poisoned a fi si c tr) =
         poisoned (replicate fpLength NaN) fi si c tr"
proof -
  let ?s = "poisoned a fi si c tr"
  have w: "take specRes (drop (nat (startIndex ?s)) (frameBuffer ?s)) = replicate specRes (Num 0)"
    using assms
    by (simp add: poisoned_def fresh_def Fingerprinter_new_def fbLen_setup_value specRes_def)
  have A1: "store (bufA ?s) 0 (replicate specRes (Num 0)) =
            replicate specRes (Num 0) @ replicate specRes NaN"
    by (simp add: poisoned_def fresh_def Fingerprinter_new_def store_def)
  have A2: "store (replicate specRes (Num 0) @ replicate specRes NaN) 0
              (vDSP_vmul (replicate specRes (Num 0) @ replicate specRes NaN) (hamm ?s) specRes) =
            replicate specRes (Num 0) @ replicate specRes NaN"
    by (simp add: poisoned_def fresh_def Fingerprinter_new_def vmul_zero_hamm store_def)
  have P: "powerSpectrum reference_environment
             (replicate specRes (Num 0) @ replicate specRes NaN) = replicate specRes NaN"
    by (simp add: reference_environment_def dft_power_NaN specRes_def)
  have A3: "store (replicate specRes (Num 0) @ replicate specRes NaN) 0
              (take specRes (replicate specRes NaN)) = replicate (2 * specRes) NaN"
    by (simp add: store_def mult_2 replicate_add)
  have acc: "store (accum ?s) 0 (vDSP_vadd (replicate (2 * specRes) NaN) (accum ?s) fpLength) =
             replicate fpLength NaN"
    using assms(1)
    by (simp add: poisoned_def vDSP_vadd_def store_def list_eq_iff_nth_eq fpLength_value
        specRes_def)
  show ?thesis
    unfolding analyze_window_def Let_def w A1 A2 P A3 acc
    by (simp add: poisoned_def fresh_def Fingerprinter_new_def)
qed

lemma accumulated_poisoned:
  "accumulated reference_environment (poisoned (replicate fpLength NaN) fi si c tr) =
     (Return 0,
      poisoned (replicate fpLength NaN) fi si c
        (tr @ [MutexLock 0, Print ''spectrum is NaN'', MutexUnlock]))"
proof -
  have "vDSP_vdbcon (replicate fpLength NaN) (Num (1 * of_nat accumulationNum)) fpLength 1 =
        replicate fpLength NaN"
    by (simp add: vDSP_vdbcon_def)
  then show ?thesis
    by (simp add: accumulated_def convert_to_dB_def lock_fingerprint_def
        pthread_mutex_lock_def pthread_mutex_unlock_def emit_def is_NaN_def store_def Let_def
        poisoned_def fresh_def Fingerprinter_new_def reference_environment_def fpLength_value)
qed

lemma window_body_poisoned:
  assumes "length a = fpLength" and "0 \<le> si" and "si + 1024 \<le> 22050"
    and "0 \<le> c" and "c < 1000"
  shows "window_body reference_environment (poisoned a fi si c tr) =
         Inr (if c + 1 < 10
              then (Continue, poisoned (replicate fpLength NaN) fi si (c + 1) tr)
              else (Return 0, poisoned (replicate fpLength NaN) fi si (c + 1)
                      (tr @ [MutexLock 0, Print ''spectrum is NaN'', MutexUnlock])))"
proof -
  have bounds: "\<not> (startIndex (poisoned a fi si c tr) < 0 \<or>
      int (length (frameBuffer (poisoned a fi si c tr))) <
        startIndex (poisoned a fi si c tr) + int specRes)"
    using assms
    by (simp add: poisoned_def fresh_def Fingerprinter_new_def fbLen_setup_value specRes_def)
  have count: "(poisoned (replicate fpLength NaN) fi si c tr)
      \<lparr>accCount := s32 (accCount (poisoned (replicate fpLength NaN) fi si c tr) + 1)\<rparr> =
      poisoned (replicate fpLength NaN) fi si (c + 1) tr"
    using assms by (simp add: poisoned_def s32_def)
  have c1: "accCount (poisoned (replicate fpLength NaN) fi si (c + 1) tr) = c + 1"
    by (simp add: poisoned_def)
  have u: "u32 (c + 1) = c + 1"
    using assms by (simp add: u32_def)
  show ?thesis
    unfolding window_body_def Let_def analyze_window_poisoned [OF assms(1-3)] count c1 u
    using bounds by (simp add: accumulationNum_def accumulated_poisoned)
qed

lemma frame_assemble_poisoned:
  assumes "0 \<le> fi" and "fi + int n < 22050"
  shows "frame_assemble (poisoned a fi si c tr) n (replicate n 0) =
         Inr (poisoned a (fi + int n) si c tr)"
proof -
  have "nat fi + n \<le> 22050"
    using assms by linarith
  then have "store (replicate 22050 (Num 0)) (nat fi) (replicate n (Num 0)) =
             replicate 22050 (Num 0)"
    by (rule store_replicate)
  then show ?thesis
    using assms
    by (simp add: frame_assemble_def Let_def poisoned_def fresh_def Fingerprinter_new_def
        fbLen_setup_value vDSP_vflt32_def u32_def s32_def)
qed

lemma window_loop_poisoned_next:
  assumes "length a = fpLength" and "0 \<le> si" and "si \<le> fi - 1024" and "fi \<le> 22050"
    and "0 \<le> c" and "c + 1 < 10"
  shows "window_loop reference_environment (poisoned a fi si c tr) =
         window_loop reference_environment
           (poisoned (replicate fpLength NaN) fi (si + 441) (c + 1) tr)"
proof -
  have "window_body reference_environment (poisoned a fi si c tr) =
        Inr (Continue, poisoned (replicate fpLength NaN) fi si (c + 1) tr)"
    using assms by (simp add: window_body_poisoned)
  moreover have "startIndex (poisoned a fi si c tr) \<le> fbIndex (poisoned a fi si c tr) - int specRes"
    using assms by (simp add: poisoned_def specRes_def)
  moreover have "(poisoned (replicate fpLength NaN) fi si (c + 1) tr)
      \<lparr>startIndex := startIndex (poisoned (replicate fpLength NaN) fi si (c + 1) tr) + stepSize\<rparr> =
      poisoned (replicate fpLength NaN) fi (si + 441) (c + 1) tr"
    by (simp add: poisoned_def stepSize_value)
  ultimately show ?thesis
    by (simp add: window_loop.simps [of _ "poisoned a fi si c tr"])
qed

lemma window_loop_poisoned_return:
  assumes "length a = fpLength" and "0 \<le> si" and "si \<le> fi - 1024" and "fi \<le> 22050"
    and "9 \<le> c" and "c < 1000"
  shows "window_loop reference_environment (poisoned a fi si c tr) =
         Inr (0, poisoned (replicate fpLength NaN) fi si (c + 1)
                   (tr @ [MutexLock 0, Print ''spectrum is NaN'', MutexUnlock]))"
proof -
  have "window_body reference_environment (poisoned a fi si c tr) =
        Inr (Return 0, poisoned (replicate fpLength NaN) fi si (c + 1)
                   (tr @ [MutexLock 0, Print ''spectrum is NaN'', MutexUnlock]))"
    using assms by (simp add: window_body_poisoned)
  moreover have "startIndex (poisoned a fi si c tr) \<le> fbIndex (poisoned a fi si c tr) - int specRes"
    using assms by (simp add: poisoned_def specRes_def)
  ultimately show ?thesis
    by (simp add: window_loop.simps [of _ "poisoned a fi si c tr"])
qed

lemma window_loop_poisoned_done:
  assumes "fi - 1024 < si"
  shows "window_loop reference_environment (poisoned a fi si c tr) =
         Inr (0, poisoned a fi si c tr)"
proof -
  have "\<not> startIndex (poisoned a fi si c tr) \<le> fbIndex (poisoned a fi si c tr) - int specRes"
    using assms by (simp add: poisoned_def specRes_def)
  then show ?thesis
    by (simp add: window_loop.simps [of _ "poisoned a fi si c tr"])
qed

lemma callback_poisoned:
  assumes "0 \<le> fi" and "fi + 1024 < 22050"
  shows "callback reference_environment (poisoned a fi si c tr) 1024 (Some (replicate 1024 0)) =
         (case window_loop reference_environment (poisoned a (fi + 1024) si c tr) of
            Inl f \<Rightarrow> Inl f
          | Inr (r, s2) \<Rightarrow> Inr (r, replicate 1024 0, s2))"
proof -
  have "frame_assemble (poisoned a fi si c tr) 1024 (replicate 1024 0) =
        Inr (poisoned a (fi + 1024) si c tr)"
    using frame_assemble_poisoned [of fi 1024 a si c tr] assms by simp
  moreover have "\<not> fbIndex (poisoned a (fi + 1024) si c tr) < int specRes"
    using assms by (simp add: poisoned_def specRes_def)
  ultimately show ?thesis
    by (simp add: callback_def Let_def u32_def specRes_def vDSP_vfilli_def)
qed

lemma cb1:
  "callback reference_environment (poisoned (replicate fpLength (Num 0)) 0 0 0 []) 1024
     (Some (replicate 1024 0)) =
   Inr (0, replicate 1024 0, poisoned (replicate fpLength NaN) 1024 441 1 [])"
  by (simp add: callback_poisoned window_loop_poisoned_next window_loop_poisoned_done)

lemma cb2:
  "callback reference_environment (poisoned (replicate fpLength NaN) 1024 441 1 []) 1024
     (Some (replicate 1024 0)) =
   Inr (0, replicate 1024 0, poisoned (replicate fpLength NaN) 2048 1323 3 [])"
  by (simp add: callback_poisoned window_loop_poisoned_next window_loop_poisoned_done)

lemma cb3:
  "callback reference_environment (poisoned (replicate fpLength NaN) 2048 1323 3 []) 1024
     (Some (replicate 1024 0)) =
   Inr (0, replicate 1024 0, poisoned (replicate fpLength NaN) 3072 2205 5 [])"
  by (simp add: callback_poisoned window_loop_poisoned_next window_loop_poisoned_done)

lemma cb4:
  "callback reference_environment (poisoned (replicate fpLength NaN) 3072 2205 5 []) 1024
     (Some (replicate 1024 0)) =
   Inr (0, replicate 1024 0, poisoned (replicate fpLength NaN) 4096 3087 7 [])"
  by (simp add: callback_poisoned window_loop_poisoned_next window_loop_poisoned_done)

lemma cb5:
  "callback reference_environment (poisoned (replicate fpLength NaN) 4096 3087 7 []) 1024
     (Some (replicate 1024 0)) =
   Inr (0, replicate 1024 0, poisoned (replicate fpLength NaN) 5120 3969 10
     [MutexLock 0, Print ''spectrum is NaN'', MutexUnlock])"
  by (simp add: callback_poisoned window_loop_poisoned_next window_loop_poisoned_return)

lemma cb6:
  "callback reference_environment (poisoned (replicate fpLength NaN) 5120 3969 10 tr) 1024
     (Some (replicate 1024 0)) =
   Inr (0, replicate 1024 0, poisoned (replicate fpLength NaN) 6144 3969 11
     (tr @ [MutexLock 0, Print ''spectrum is NaN'', MutexUnlock]))"
  by (simp add: callback_poisoned window_loop_poisoned_return)

lemma accumulated_NaN:
  assumes "is_NaN (accum (convert_to_dB s) ! 0)"
  shows "\<exists>s'. accumulated env s = (Return 0, s') \<and> accCount s' = accCount s \<and>
           accum s' = accum (convert_to_dB s) \<and> startIndex s' = startIndex s \<and>
           spectrogram s' = spectrogram s \<and> fingerprint s' = fingerprint s \<and> \<not> lock s'"
proof -
  have "accum (convert_to_dB (lock_fingerprint (lockStatus env) s)) = accum (convert_to_dB s)"
    by (simp add: convert_to_dB_def lock_fingerprint_def pthread_mutex_lock_def emit_def Let_def)
  with assms show ?thesis
    by (simp add: accumulated_def convert_to_dB_def lock_fingerprint_def
        pthread_mutex_lock_def pthread_mutex_unlock_def emit_def Let_def)
qed

text \<open>
  C2: when the first element of the converted spectrum is NaN, the accumulated spectrum
  is to be discarded and the counter and the sum reset, so that the counter is below
  \<open>accumulationNum\<close> again. The callback prints, unlocks and returns without calling the
  spectrogram, but it resets nothing. In the run below a fresh object, whose scratch
  array holds NaN, is started and fed five buffers of 1024 silent samples: the tenth
  window makes the spectrum due, it is NaN, and the callback returns with the counter at
  10, the accumulator still NaN and the analysis cursor still on that window. The sixth
  buffer finds the same window, raises the counter to 11 and returns the same way.
\<close>

theorem nan_cycle_not_reset:
  "startRecording audio_unit_ok fresh =
     Inr (True, poisoned (replicate fpLength (Num 0)) 0 0 0 []) \<and>
   feed reference_environment (poisoned (replicate fpLength (Num 0)) 0 0 0 [])
     [replicate 1024 0, replicate 1024 0, replicate 1024 0, replicate 1024 0,
      replicate 1024 0] =
     Inr (poisoned (replicate fpLength NaN) 5120 3969 10
            [MutexLock 0, Print ''spectrum is NaN'', MutexUnlock]) \<and>
   feed reference_environment (poisoned (replicate fpLength (Num 0)) 0 0 0 [])
     [replicate 1024 0, replicate 1024 0, replicate 1024 0, replicate 1024 0,
      replicate 1024 0, replicate 1024 0] =
     Inr (poisoned (replicate fpLength NaN) 6144 3969 11
            [MutexLock 0, Print ''spectrum is NaN'', MutexUnlock,
             MutexLock 0, Print ''spectrum is NaN'', MutexUnlock]) \<and>
   \<not> accCount (poisoned (replicate fpLength NaN) 5120 3969 10
           [MutexLock 0, Print ''spectrum is NaN'', MutexUnlock]) < int accumulationNum \<and>
   accum (poisoned (replicate fpLength NaN) 5120 3969 10
           [MutexLock 0, Print ''spectrum is NaN'', MutexUnlock]) = replicate fpLength NaN"
  by (simp add: start_fresh cb1 cb2 cb3 cb4 cb5 cb6) (simp add: poisoned_def accumulationNum_def)

subsection \<open>The fingerprint mutex\<close>

lemma window_body_lock:
  "window_body env s = Inr (fl, s') \<Longrightarrow> \<not> lock s \<Longrightarrow> \<not> lock s'"
  by (auto simp: window_body_def accumulated_def analyze_window_def convert_to_dB_def
      lock_fingerprint_def pthread_mutex_lock_def pthread_mutex_unlock_def emit_def Let_def
      split: if_splits)

lemma window_loop_lock:
  assumes "window_loop env s = Inr (r, s')" and "\<not> lock s"
  shows "\<not> lock s'"
  by (rule window_loop_invariant [OF assms(1), where P = "\<lambda>t. \<not> lock t"])
    (use assms(2) window_body_lock in \<open>simp_all, blast\<close>)

lemma frame_assemble_lock:
  "frame_assemble s n data = Inr s' \<Longrightarrow> lock s' = lock s"
  by (auto simp: frame_assemble_def shift_buffer_def Let_def split: if_splits)

text \<open>
  C10: a callback that is entered with the fingerprint mutex free returns with it free,
  whatever the samples, the environment and the status of the lock call are, and on
  whichever path it returns: with 1 after a failed render, with 0 before the loop, from
  the NaN test inside the loop, or after the loop.
\<close>

theorem callback_releases_lock:
  "callback env s inNumberFrames ioData = Inr (r, out, s') \<Longrightarrow> \<not> lock s \<Longrightarrow> \<not> lock s'"
  by (auto simp: callback_def emit_def Let_def
      split: option.splits sum.splits if_splits prod.splits
      dest!: frame_assemble_lock window_loop_lock)

theorem callback_releases_lock_witness:
  "callback reference_environment (poisoned (replicate fpLength NaN) 4096 3087 7 []) 1024
     (Some (replicate 1024 0)) =
     Inr (0, replicate 1024 0, poisoned (replicate fpLength NaN) 5120 3969 10
       [MutexLock 0, Print ''spectrum is NaN'', MutexUnlock]) \<and>
   \<not> lock (poisoned (replicate fpLength NaN) 4096 3087 7 []) \<and>
   \<not> lock (poisoned (replicate fpLength NaN) 5120 3969 10
       [MutexLock 0, Print ''spectrum is NaN'', MutexUnlock])"
proof -
  have free: "\<not> lock (poisoned (replicate fpLength NaN) 4096 3087 7 [])"
    by (simp add: poisoned_def fresh_def Fingerprinter_new_def)
  from callback_releases_lock [OF cb5 free] cb5 free show ?thesis
    by simp
qed

subsection \<open>The temporal accumulator\<close>

text \<open>
  C5: when the counter reaches \<open>accumulationNum\<close>, the emitted spectrum is to be
  \<open>10 \<times> log\<^sub>1\<^sub>0 (sum / accumulationNum)\<close> elementwise, the decibel value of the
  average power, and after the emission the sum is all zeros and the counter zero. The
  reset is as claimed. The conversion is not: the callback passes the flag 1 to
  \<^verbatim>\<open>vDSP_vdbcon\<close>, with the comment "1 for power, not amplitude", but for that
  routine 1 selects the amplitude convention, \<open>20 \<times> log\<^sub>1\<^sub>0\<close>. With a sum of 100 in every
  bin the average is 10 and the claimed spectrum is 10 dB in every bin; the spectrum
  that goes to the spectrogram is 20 dB.
\<close>

theorem emitted_spectrum_amplitude_dB:
  "accumulated env (s\<lparr>accum := replicate fpLength (Num 100)\<rparr>) =
     (Continue,
      s\<lparr>accum := replicate fpLength (Num 0),
        accCount := 0,
        lock := False,
        spectrogram := sg_update env (spectrogram s) (replicate fpLength (Num 20)),
        fingerprint :=
          sg_getSummary env (sg_update env (spectrogram s) (replicate fpLength (Num 20)))
            (fingerprint s),
        trace := trace s @ MutexLock (lockStatus env) #
          (if lockStatus env = 0 then [] else [Print ''lock failed!'']) @
          [Update (replicate fpLength (Num 20)), GetSummary, MutexUnlock]\<rparr>)"
proof -
  have "vDSP_vdbcon (replicate fpLength (Num 100)) (Num (1 * of_nat accumulationNum))
          fpLength 1 = replicate fpLength (Num 20)"
    by (simp add: vDSP_vdbcon_def accumulationNum_def)
  then show ?thesis
    by (simp add: accumulated_def convert_to_dB_def lock_fingerprint_def
        pthread_mutex_lock_def pthread_mutex_unlock_def emit_def is_NaN_def store_def
        vDSP_vfill_def Let_def fpLength_value)
qed


subsection \<open>The spectral analyzer\<close>

lemma hop_div_step: "(d - 441) div 441 + 1 = d div (441 :: int)"
proof -
  have "(d + (- 1) * 441) div 441 = - 1 + d div (441 :: int)"
    by (rule div_mult_self1) simp
  then show ?thesis
    by simp
qed

lemma hop_le_div: "(j \<le> d div (441 :: int)) = (441 * j \<le> d)"
proof -
  have "441 * (d div 441) + d mod 441 = d"
    by (rule mult_div_mod_eq)
  moreover have "0 \<le> d mod 441" and "d mod 441 < 441"
    by simp_all
  ultimately show ?thesis
    by linarith
qed

lemma hop_count_less:
  "(k < nat (d div 441 + 1)) = (441 * int k \<le> d)"
proof -
  have "(k < nat (d div 441 + 1)) = (int k < d div 441 + 1)"
    by linarith
  also have "\<dots> = (int k \<le> d div 441)"
    by linarith
  also have "\<dots> = (441 * int k \<le> d)"
    by (rule hop_le_div)
  finally show ?thesis .
qed

lemma window_positions_rec:
  "window_positions si fi =
     (if si \<le> fi - int specRes then si # window_positions (si + stepSize) fi else [])"
proof (cases "si \<le> fi - int specRes")
  case True
  define d where "d = fi - int specRes - si"
  have d0: "0 \<le> d"
    using True by (simp add: d_def)
  then have "0 \<le> d div 441"
    by (simp add: pos_imp_zdiv_nonneg_iff)
  then have n: "nat (d div 441 + 1) = Suc (nat (d div 441))"
    by linarith
  have n': "nat ((d - 441) div 441 + 1) = nat (d div 441)"
    by (simp only: hop_div_step)
  have e: "fi - int specRes - (si + 441) = d - 441"
    by (simp add: d_def)
  have "window_positions si fi = map (\<lambda>k. si + 441 * int k) [0..<Suc (nat (d div 441))]"
    by (simp only: window_positions_def stepSize_value d_def [symmetric] n)
  also have "\<dots> = si # map (\<lambda>k. si + 441 * int (Suc k)) [0..<nat (d div 441)]"
    by (simp only: map_upt_Suc) simp
  also have "map (\<lambda>k. si + 441 * int (Suc k)) [0..<nat (d div 441)] =
             map (\<lambda>k. si + 441 + 441 * int k) [0..<nat (d div 441)]"
    by simp
  also have "\<dots> = window_positions (si + 441) fi"
    by (simp only: window_positions_def stepSize_value e n')
  finally show ?thesis
    using True by (simp add: stepSize_value)
next
  case False
  define d where "d = fi - int specRes - si"
  have "d < 0"
    using False by (simp add: d_def)
  then have "d div 441 < 0"
    by (simp add: div_neg_pos_less0)
  then have "nat (d div 441 + 1) = 0"
    by simp
  then have "window_positions si fi = []"
    by (simp add: window_positions_def stepSize_value d_def)
  with False show ?thesis
    by simp
qed

lemma window_positions_set:
  "p \<in> set (window_positions si fi) \<longleftrightarrow>
     (\<exists>k::nat. p = si + 441 * int k \<and> p \<le> fi - int specRes)"
proof -
  have "set (window_positions si fi) =
        (\<lambda>k. si + 441 * int k) ` {k. 441 * int k \<le> fi - int specRes - si}"
    by (auto simp: window_positions_def stepSize_value hop_count_less)
  then show ?thesis
    by auto
qed

lemma window_body_cursors:
  "window_body env s = Inr (fl, s1) \<Longrightarrow> startIndex s1 = startIndex s \<and> fbIndex s1 = fbIndex s"
  by (auto simp: window_body_def accumulated_def analyze_window_def convert_to_dB_def
      lock_fingerprint_def pthread_mutex_lock_def pthread_mutex_unlock_def emit_def Let_def
      split: if_splits)

lemma window_loop_run_windows:
  "window_loop env s = run_windows env (window_positions (startIndex s) (fbIndex s)) s"
proof (induction env s rule: window_loop.induct)
  case (1 env s)
  have same: "s\<lparr>startIndex := startIndex s\<rparr> = s"
    by simp
  show ?case
  proof (cases "startIndex s \<le> fbIndex s - int specRes")
    case False
    then show ?thesis
      by (simp add: window_loop.simps [of env s] window_positions_rec [of "startIndex s"])
  next
    case True
    show ?thesis
    proof (cases "window_body env s")
      case (Inl f)
      with True show ?thesis
        by (simp add: window_loop.simps [of env s] window_positions_rec [of "startIndex s"] same)
    next
      case (Inr q)
      obtain fl s1 where q: "q = (fl, s1)"
        by (cases q)
      have cur: "startIndex s1 = startIndex s" "fbIndex s1 = fbIndex s"
        using window_body_cursors Inr q by blast+
      show ?thesis
      proof (cases fl)
        case (Return x)
        with True Inr q show ?thesis
          by (simp add: window_loop.simps [of env s] window_positions_rec [of "startIndex s"]
              same)
      next
        case Continue
        have "window_loop env (s1\<lparr>startIndex := startIndex s1 + stepSize\<rparr>) =
              run_windows env (window_positions (startIndex s + stepSize) (fbIndex s))
                (s1\<lparr>startIndex := startIndex s1 + stepSize\<rparr>)"
          using "1.IH" [OF True Inr [unfolded q] _ refl] Continue cur by simp
        with True Inr q Continue cur show ?thesis
          by (simp add: window_loop.simps [of env s] window_positions_rec [of "startIndex s"]
              same)
      qed
    qed
  qed
qed

lemma length_dft_power: "length (dft_power A) = specRes"
  by (simp add: dft_power_def)

lemma store_0: "store buf 0 xs = xs @ drop (length xs) buf"
  by (simp add: store_def)

lemma window_body_windowed:
  assumes "0 \<le> startIndex s" and "startIndex s + int specRes \<le> int (length (frameBuffer s))"
    and "length (bufA s) = 2 * specRes" and "length (hamm s) = specRes"
    and "length (accum s) = fpLength"
    and "length (powerSpectrum env (windowed s)) = specRes"
  shows "window_body env s =
     Inr (let s2 = s\<lparr>bufA := powerSpectrum env (windowed s) @ drop specRes (bufA s),
                      accum := map2 fadd (take fpLength (powerSpectrum env (windowed s)))
                                 (accum s),
                      accCount := s32 (accCount s + 1)\<rparr>
          in if int accumulationNum \<le> u32 (accCount s2) then accumulated env s2
             else (Continue, s2))"
proof -
  define w where "w = take specRes (drop (nat (startIndex s)) (frameBuffer s))"
  define P where "P = powerSpectrum env (windowed s)"
  define rest where "rest = drop specRes (bufA s)"
  have lw: "length w = specRes"
    using assms(1,2) by (simp add: w_def)
  have lP: "length P = specRes"
    using assms(6) by (simp add: P_def)
  have lrest: "length rest = specRes"
    using assms(3) by (simp add: rest_def)
  have le: "fpLength \<le> specRes"
    by (simp add: fpLength_value specRes_def)
  have A1: "store (bufA s) 0 w = w @ rest"
    by (simp only: store_0 lw rest_def)
  have mul: "vDSP_vmul (w @ rest) (hamm s) specRes = map2 fmul w (hamm s)"
    using assms(4) lw by (simp add: vDSP_vmul_def)
  have lm: "length (map2 fmul w (hamm s)) = specRes"
    using assms(4) lw by simp
  have wd: "windowed s = map2 fmul w (hamm s) @ rest"
    by (simp only: windowed_def w_def rest_def)
  have A2: "store (w @ rest) 0 (map2 fmul w (hamm s)) = windowed s"
    using lw by (simp only: store_0 lm wd) simp
  have lt: "length (take specRes P) = specRes"
    using lP by simp
  have A3: "store (windowed s) 0 (take specRes P) = P @ rest"
    using lP lm by (simp only: store_0 lt wd) simp
  have add: "store (accum s) 0 (vDSP_vadd (P @ rest) (accum s) fpLength) =
             map2 fadd (take fpLength P) (accum s)"
    using assms(5) lP le by (simp add: store_0 vDSP_vadd_def)
  have an: "analyze_window env s =
            s\<lparr>bufA := P @ rest, accum := map2 fadd (take fpLength P) (accum s)\<rparr>"
    unfolding analyze_window_def Let_def w_def [symmetric] A1 mul A2 P_def [symmetric] A3 add ..
  show ?thesis
    using assms(1,2) by (simp add: window_body_def an Let_def P_def rest_def)
qed

lemma positions_example: "window_positions 3969 6144 = [3969, 4410, 4851]"
proof -
  have "nat ((6144 - int specRes - 3969) div 441 + 1) = Suc (Suc (Suc 0))"
    by (simp add: specRes_def)
  then show ?thesis
    by (simp add: window_positions_def stepSize_value)
qed


text \<open>
  What the loop does on every path. It analyses, in order, the windows that start at
  \<open>startIndex + 441 \<times> k\<close> for \<open>k = 0, 1, \<dots>\<close> as long as the start is at most
  \<open>fbIndex - specRes\<close>, and advances \<open>startIndex\<close> by the hop of 441 after each window
  whose body does not return.
  For a window inside the frame buffer, with the arrays as allocated, the body leaves in
  \<^verbatim>\<open>A\<close> the power spectrum of the window multiplied elementwise by the window
  function, adds the first \<open>fpLength\<close> bins of it to the accumulator and increments the
  counter, and then either goes on or, when the counter has reached \<open>accumulationNum\<close>,
  emits the accumulated spectrum. A callback that finds at least \<open>specRes\<close> samples in
  the frame buffer, once the new ones are copied, runs exactly this analysis.
\<close>

theorem spectral_analysis:
  "window_loop env s = run_windows env (window_positions (startIndex s) (fbIndex s)) s \<and>
   (\<forall>p. (p \<in> set (window_positions si fi)) =
         (\<exists>k::nat. p = si + stepSize * int k \<and> p \<le> fi - int specRes)) \<and>
   stepSize = 441 \<and>
   (0 \<le> startIndex s \<and> startIndex s + int specRes \<le> int (length (frameBuffer s)) \<and>
    length (bufA s) = 2 * specRes \<and> length (hamm s) = specRes \<and>
    length (accum s) = fpLength \<and> length (powerSpectrum env (windowed s)) = specRes \<longrightarrow>
    window_body env s =
      Inr (let s2 = s\<lparr>bufA := powerSpectrum env (windowed s) @ drop specRes (bufA s),
                       accum := map2 fadd (take fpLength (powerSpectrum env (windowed s)))
                                  (accum s),
                       accCount := s32 (accCount s + 1)\<rparr>
           in if int accumulationNum \<le> u32 (accCount s2) then accumulated env s2
              else (Continue, s2))) \<and>
   (frame_assemble
      (if u32 (int specRes) < int n then emit (Print ''Error: buffer is too small.'') t else t)
      n data = Inr t1 \<and> int specRes \<le> fbIndex t1 \<longrightarrow>
    callback env t n (Some data) =
      (case run_windows env (window_positions (startIndex t1) (fbIndex t1)) t1 of
         Inl f \<Rightarrow> Inl f
       | Inr (r, t2) \<Rightarrow> Inr (r, vDSP_vfilli 0 n, t2)))"
proof (intro conjI allI impI)
  show "window_loop env s = run_windows env (window_positions (startIndex s) (fbIndex s)) s"
    by (rule window_loop_run_windows)
next
  fix p
  show "(p \<in> set (window_positions si fi)) =
        (\<exists>k::nat. p = si + stepSize * int k \<and> p \<le> fi - int specRes)"
    by (simp only: window_positions_set stepSize_value)
next
  show "stepSize = 441"
    by (rule stepSize_value)
next
  assume "0 \<le> startIndex s \<and> startIndex s + int specRes \<le> int (length (frameBuffer s)) \<and>
    length (bufA s) = 2 * specRes \<and> length (hamm s) = specRes \<and>
    length (accum s) = fpLength \<and> length (powerSpectrum env (windowed s)) = specRes"
  then show "window_body env s =
      Inr (let s2 = s\<lparr>bufA := powerSpectrum env (windowed s) @ drop specRes (bufA s),
                       accum := map2 fadd (take fpLength (powerSpectrum env (windowed s)))
                                  (accum s),
                       accCount := s32 (accCount s + 1)\<rparr>
           in if int accumulationNum \<le> u32 (accCount s2) then accumulated env s2
              else (Continue, s2))"
    by (intro window_body_windowed) simp_all
next
  assume "frame_assemble
      (if u32 (int specRes) < int n then emit (Print ''Error: buffer is too small.'') t else t)
      n data = Inr t1 \<and> int specRes \<le> fbIndex t1"
  then show "callback env t n (Some data) =
      (case run_windows env (window_positions (startIndex t1) (fbIndex t1)) t1 of
         Inl f \<Rightarrow> Inl f
       | Inr (r, t2) \<Rightarrow> Inr (r, vDSP_vfilli 0 n, t2))"
    by (simp add: callback_def Let_def window_loop_run_windows)
qed

theorem spectral_analysis_witness:
  "(let S = poisoned (replicate fpLength NaN) 4096 3087 7 []
    in 0 \<le> startIndex S \<and> startIndex S + int specRes \<le> int (length (frameBuffer S)) \<and>
       length (bufA S) = 2 * specRes \<and> length (hamm S) = specRes \<and>
       length (accum S) = fpLength \<and>
       length (powerSpectrum reference_environment (windowed S)) = specRes \<and>
       window_body reference_environment S =
         Inr (let s2 = S\<lparr>bufA := powerSpectrum reference_environment (windowed S) @
                                  drop specRes (bufA S),
                          accum := map2 fadd
                            (take fpLength (powerSpectrum reference_environment (windowed S)))
                            (accum S),
                          accCount := s32 (accCount S + 1)\<rparr>
              in if int accumulationNum \<le> u32 (accCount s2)
                 then accumulated reference_environment s2 else (Continue, s2)) \<and>
       window_body reference_environment S =
         Inr (Continue, poisoned (replicate fpLength NaN) 4096 3087 8 [])) \<and>
   (let T = poisoned (replicate fpLength NaN) 4096 3087 7 [];
        T1 = poisoned (replicate fpLength NaN) 5120 3087 7 []
    in frame_assemble
         (if u32 (int specRes) < int 1024
          then emit (Print ''Error: buffer is too small.'') T else T)
         1024 (replicate 1024 0) = Inr T1 \<and>
       int specRes \<le> fbIndex T1 \<and>
       callback reference_environment T 1024 (Some (replicate 1024 0)) =
         (case run_windows reference_environment
                 (window_positions (startIndex T1) (fbIndex T1)) T1 of
            Inl f \<Rightarrow> Inl f
          | Inr (r, t2) \<Rightarrow> Inr (r, vDSP_vfilli 0 1024, t2)) \<and>
       callback reference_environment T 1024 (Some (replicate 1024 0)) =
         Inr (0, replicate 1024 0, poisoned (replicate fpLength NaN) 5120 3969 10
           [MutexLock 0, Print ''spectrum is NaN'', MutexUnlock]))"
proof -
  define S where "S = poisoned (replicate fpLength NaN) 4096 3087 7 []"
  define T1 where "T1 = poisoned (replicate fpLength NaN) 5120 3087 7 []"
  note main = spectral_analysis [of reference_environment S 0 0 1024 S "replicate 1024 0" T1]
  have h1: "0 \<le> startIndex S \<and> startIndex S + int specRes \<le> int (length (frameBuffer S))"
    by (simp add: S_def poisoned_def fresh_def Fingerprinter_new_def fbLen_setup_value
        specRes_def)
  have h2: "length (bufA S) = 2 * specRes \<and> length (hamm S) = specRes \<and>
            length (accum S) = fpLength"
    by (simp add: S_def poisoned_def fresh_def Fingerprinter_new_def vDSP_hamm_window_def)
  have h3: "length (powerSpectrum reference_environment (windowed S)) = specRes"
    by (simp add: reference_environment_def length_dft_power)
  have e: "window_body reference_environment S =
        Inr (let s2 = S\<lparr>bufA := powerSpectrum reference_environment (windowed S) @
                                 drop specRes (bufA S),
                         accum := map2 fadd
                           (take fpLength (powerSpectrum reference_environment (windowed S)))
                           (accum S),
                         accCount := s32 (accCount S + 1)\<rparr>
             in if int accumulationNum \<le> u32 (accCount s2)
                then accumulated reference_environment s2 else (Continue, s2))"
    using main h1 h2 h3 by blast
  have c: "window_body reference_environment S =
           Inr (Continue, poisoned (replicate fpLength NaN) 4096 3087 8 [])"
    unfolding S_def by (simp add: window_body_poisoned)
  have g1: "frame_assemble
         (if u32 (int specRes) < int 1024
          then emit (Print ''Error: buffer is too small.'') S else S)
         1024 (replicate 1024 0) = Inr T1"
    using frame_assemble_poisoned [of 4096 1024 "replicate fpLength NaN" 3087 7 "[]"]
    by (simp add: S_def T1_def u32_def specRes_def)
  have g2: "int specRes \<le> fbIndex T1"
    by (simp add: T1_def poisoned_def specRes_def)
  have k: "callback reference_environment S 1024 (Some (replicate 1024 0)) =
         (case run_windows reference_environment
                 (window_positions (startIndex T1) (fbIndex T1)) T1 of
            Inl f \<Rightarrow> Inl f
          | Inr (r, t2) \<Rightarrow> Inr (r, vDSP_vfilli 0 1024, t2))"
    using main g1 g2 by blast
  have m: "callback reference_environment S 1024 (Some (replicate 1024 0)) =
         Inr (0, replicate 1024 0, poisoned (replicate fpLength NaN) 5120 3969 10
           [MutexLock 0, Print ''spectrum is NaN'', MutexUnlock])"
    unfolding S_def by (rule cb5)
  have A: "0 \<le> startIndex S \<and> startIndex S + int specRes \<le> int (length (frameBuffer S)) \<and>
       length (bufA S) = 2 * specRes \<and> length (hamm S) = specRes \<and>
       length (accum S) = fpLength \<and>
       length (powerSpectrum reference_environment (windowed S)) = specRes \<and>
       window_body reference_environment S =
         Inr (let s2 = S\<lparr>bufA := powerSpectrum reference_environment (windowed S) @
                                  drop specRes (bufA S),
                          accum := map2 fadd
                            (take fpLength (powerSpectrum reference_environment (windowed S)))
                            (accum S),
                          accCount := s32 (accCount S + 1)\<rparr>
              in if int accumulationNum \<le> u32 (accCount s2)
                 then accumulated reference_environment s2 else (Continue, s2)) \<and>
       window_body reference_environment S =
         Inr (Continue, poisoned (replicate fpLength NaN) 4096 3087 8 [])"
    using h1 h2 h3 e c by blast
  have B: "frame_assemble
         (if u32 (int specRes) < int 1024
          then emit (Print ''Error: buffer is too small.'') S else S)
         1024 (replicate 1024 0) = Inr T1 \<and>
       int specRes \<le> fbIndex T1 \<and>
       callback reference_environment S 1024 (Some (replicate 1024 0)) =
         (case run_windows reference_environment
                 (window_positions (startIndex T1) (fbIndex T1)) T1 of
            Inl f \<Rightarrow> Inl f
          | Inr (r, t2) \<Rightarrow> Inr (r, vDSP_vfilli 0 1024, t2)) \<and>
       callback reference_environment S 1024 (Some (replicate 1024 0)) =
         Inr (0, replicate 1024 0, poisoned (replicate fpLength NaN) 5120 3969 10
           [MutexLock 0, Print ''spectrum is NaN'', MutexUnlock])"
    using g1 g2 k m by blast
  show ?thesis
  proof (rule conjI)
    from A show "let S = poisoned (replicate fpLength NaN) 4096 3087 7 []
      in 0 \<le> startIndex S \<and> startIndex S + int specRes \<le> int (length (frameBuffer S)) \<and>
       length (bufA S) = 2 * specRes \<and> length (hamm S) = specRes \<and>
       length (accum S) = fpLength \<and>
       length (powerSpectrum reference_environment (windowed S)) = specRes \<and>
       window_body reference_environment S =
         Inr (let s2 = S\<lparr>bufA := powerSpectrum reference_environment (windowed S) @
                                  drop specRes (bufA S),
                          accum := map2 fadd
                            (take fpLength (powerSpectrum reference_environment (windowed S)))
                            (accum S),
                          accCount := s32 (accCount S + 1)\<rparr>
              in if int accumulationNum \<le> u32 (accCount s2)
                 then accumulated reference_environment s2 else (Continue, s2)) \<and>
       window_body reference_environment S =
         Inr (Continue, poisoned (replicate fpLength NaN) 4096 3087 8 [])"
      unfolding S_def by (subst Let_def)
    from B show "let T = poisoned (replicate fpLength NaN) 4096 3087 7 [];
        T1 = poisoned (replicate fpLength NaN) 5120 3087 7 []
      in frame_assemble
         (if u32 (int specRes) < int 1024
          then emit (Print ''Error: buffer is too small.'') T else T)
         1024 (replicate 1024 0) = Inr T1 \<and>
       int specRes \<le> fbIndex T1 \<and>
       callback reference_environment T 1024 (Some (replicate 1024 0)) =
         (case run_windows reference_environment
                 (window_positions (startIndex T1) (fbIndex T1)) T1 of
            Inl f \<Rightarrow> Inl f
          | Inr (r, t2) \<Rightarrow> Inr (r, vDSP_vfilli 0 1024, t2)) \<and>
       callback reference_environment T 1024 (Some (replicate 1024 0)) =
         Inr (0, replicate 1024 0, poisoned (replicate fpLength NaN) 5120 3969 10
           [MutexLock 0, Print ''spectrum is NaN'', MutexUnlock])"
      unfolding S_def T1_def by (subst Let_def, subst Let_def)
  qed
qed

lemma positions_fifth: "window_positions 3087 5120 = [3087, 3528, 3969]"
proof -
  have "nat ((5120 - int specRes - 3087) div 441 + 1) = Suc (Suc (Suc 0))"
    by (simp add: specRes_def)
  then show ?thesis
    by (simp add: window_positions_def stepSize_value)
qed

lemma feed_four:
  "feed reference_environment (poisoned (replicate fpLength (Num 0)) 0 0 0 [])
     [replicate 1024 0, replicate 1024 0, replicate 1024 0, replicate 1024 0] =
   Inr (poisoned (replicate fpLength NaN) 4096 3087 7 [])"
  by (simp add: cb1 cb2 cb3 cb4)

text \<open>
  C8: in every callback with enough buffered data the analyzer is to process exactly the
  windows whose start is at most \<open>fbIndex - specRes\<close>, each multiplied by the window
  function and cut to \<open>fpLength\<close> bins, and to advance \<open>startIndex\<close> by the hop of 441
  after each window. The loop is written to do so, and does on every path but one: the
  \<^verbatim>\<open>return\<close> in the NaN test leaves the loop in the middle of a window. In the run
  below a new object, whose scratch array holds NaN, has been started and fed four
  buffers of 1024 silent samples. In the fifth callback the windows at 3087, 3528 and
  3969 fit below the write cursor; the third makes the accumulated spectrum due, and the
  callback returns with \<open>startIndex\<close> at 3969, not advanced past the window it has
  analysed. In the sixth callback the windows at 3969, 4410 and 4851 fit; the callback
  analyses the first again (the counter goes from 10 to 11) and returns with
  \<open>startIndex\<close> still at 3969, the other two windows not analysed.
\<close>

theorem nan_return_skips_windows:
  "feed reference_environment (poisoned (replicate fpLength (Num 0)) 0 0 0 [])
     [replicate 1024 0, replicate 1024 0, replicate 1024 0, replicate 1024 0] =
     Inr (poisoned (replicate fpLength NaN) 4096 3087 7 []) \<and>
   window_positions 3087 5120 = [3087, 3528, 3969] \<and>
   callback reference_environment (poisoned (replicate fpLength NaN) 4096 3087 7 [])
     1024 (Some (replicate 1024 0)) =
     Inr (0, replicate 1024 0,
          poisoned (replicate fpLength NaN) 5120 3969 10
            [MutexLock 0, Print ''spectrum is NaN'', MutexUnlock]) \<and>
   window_positions 3969 6144 = [3969, 4410, 4851] \<and>
   callback reference_environment
     (poisoned (replicate fpLength NaN) 5120 3969 10
        [MutexLock 0, Print ''spectrum is NaN'', MutexUnlock])
     1024 (Some (replicate 1024 0)) =
     Inr (0, replicate 1024 0,
          poisoned (replicate fpLength NaN) 6144 3969 11
            [MutexLock 0, Print ''spectrum is NaN'', MutexUnlock,
             MutexLock 0, Print ''spectrum is NaN'', MutexUnlock]) \<and>
   startIndex (poisoned (replicate fpLength NaN) 6144 3969 11
          [MutexLock 0, Print ''spectrum is NaN'', MutexUnlock,
           MutexLock 0, Print ''spectrum is NaN'', MutexUnlock]) = 3969 \<and>
   \<not> fbIndex (poisoned (replicate fpLength NaN) 6144 3969 11
          [MutexLock 0, Print ''spectrum is NaN'', MutexUnlock,
           MutexLock 0, Print ''spectrum is NaN'', MutexUnlock]) - int specRes < 3969"
proof -
  have sixth: "callback reference_environment
     (poisoned (replicate fpLength NaN) 5120 3969 10
        [MutexLock 0, Print ''spectrum is NaN'', MutexUnlock])
     1024 (Some (replicate 1024 0)) =
     Inr (0, replicate 1024 0,
          poisoned (replicate fpLength NaN) 6144 3969 11
            [MutexLock 0, Print ''spectrum is NaN'', MutexUnlock,
             MutexLock 0, Print ''spectrum is NaN'', MutexUnlock])"
    by (simp add: cb6)
  have stuck: "startIndex (poisoned (replicate fpLength NaN) 6144 3969 11
          [MutexLock 0, Print ''spectrum is NaN'', MutexUnlock,
           MutexLock 0, Print ''spectrum is NaN'', MutexUnlock]) = 3969"
    by (simp add: poisoned_def)
  have pending: "\<not> fbIndex (poisoned (replicate fpLength NaN) 6144 3969 11
          [MutexLock 0, Print ''spectrum is NaN'', MutexUnlock,
           MutexLock 0, Print ''spectrum is NaN'', MutexUnlock]) - int specRes < 3969"
    by (simp add: poisoned_def specRes_def)
  show ?thesis
    by (intro conjI)
      (fact feed_four positions_fifth cb5 positions_example sixth stuck pending)+
qed

end
